theory Spec2Isabelle
  imports Complex_Main "HOL-Library.Sublist" "HOL-Library.Multiset" "HOL-Library.Word"
begin

section \<open>JavaScript strings\<close>

text \<open>
  A string of JavaScript is a sequence of UTF-16 code units: a list of 16-bit words
  (\<open>js_string\<close>). \<open>str\<close> gives the string a literal of the source denotes (its
  characters are below 256, one code unit each); a line feed is \<open>0x0A\<close>. The functions
  below are the members of \<open>String.prototype\<close> that \<open>src/providers/base.ts\<close> calls,
  with the meaning ECMAScript gives them; \<open>toLowerCase\<close> and \<open>localeCompare\<close>, which
  depend on the Unicode tables and the locale of the host, are taken from the host.
\<close>

type_synonym code_unit = "16 word"

type_synonym js_string = "code_unit list"

definition unit_of :: "char \<Rightarrow> code_unit" where
  "unit_of c = of_nat (of_char c)"

definition str :: "string \<Rightarrow> js_string" where
  "str s = map unit_of s"

definition nl :: js_string where
  "nl = [0x0A]"

definition startsWith :: "js_string \<Rightarrow> js_string \<Rightarrow> bool" where
  "startsWith s p = (take (length p) s = p)"

definition endsWith :: "js_string \<Rightarrow> js_string \<Rightarrow> bool" where
  "endsWith s p = (length p \<le> length s \<and> drop (length s - length p) s = p)"

fun js_includes :: "js_string \<Rightarrow> js_string \<Rightarrow> bool" where
  "js_includes [] p = (p = [])"
| "js_includes (c # cs) p = (startsWith (c # cs) p \<or> js_includes cs p)"

text \<open>\<open>s.split(sep)\<close> for a separator of one character.\<close>

fun js_split :: "code_unit \<Rightarrow> js_string \<Rightarrow> js_string list" where
  "js_split sep [] = [[]]"
| "js_split sep (c # cs) =
     (if c = sep then [] # js_split sep cs
      else (case js_split sep cs of [] \<Rightarrow> [[c]] | p # ps \<Rightarrow> (c # p) # ps))"

text \<open>\<open>s.replace(pat, rep)\<close> with a string pattern: the first occurrence only.\<close>

fun js_replace :: "js_string \<Rightarrow> js_string \<Rightarrow> js_string \<Rightarrow> js_string" where
  "js_replace [] pat rep = (if pat = [] then rep else [])"
| "js_replace (c # cs) pat rep =
     (if startsWith (c # cs) pat then rep @ drop (length pat) (c # cs)
      else c # js_replace cs pat rep)"

text \<open>\<open>s.slice(0, -n)\<close>.\<close>

definition slice_end :: "js_string \<Rightarrow> nat \<Rightarrow> js_string" where
  "slice_end s n = take (length s - n) s"

text \<open>
  The line terminators of ECMAScript are LF, CR, LS (U+2028) and PS (U+2029).
  \<open>trim\<close> removes white space and line terminators from both ends: TAB, VT, FF, SP,
  NBSP, ZWNBSP (U+FEFF) and the space separators U+1680, U+2000 to U+200A, U+202F,
  U+205F and U+3000.
\<close>

definition is_line_terminator :: "code_unit \<Rightarrow> bool" where
  "is_line_terminator c = (c = 0x0A \<or> c = 0x0D \<or> c = 0x2028 \<or> c = 0x2029)"

definition is_js_space :: "code_unit \<Rightarrow> bool" where
  "is_js_space c =
     (is_line_terminator c
      \<or> c \<in> set [0x09, 0x0B, 0x0C, 0x20, 0xA0, 0x1680, 0x202F, 0x205F, 0x3000, 0xFEFF]
      \<or> (0x2000 \<le> c \<and> c \<le> 0x200A))"

definition js_trim :: "js_string \<Rightarrow> js_string" where
  "js_trim s = rev (dropWhile is_js_space (rev (dropWhile is_js_space s)))"

text \<open>A non-negative integer in a template literal: its decimal digits.\<close>

fun show_nat :: "nat \<Rightarrow> js_string" where
  "show_nat n =
     (if n < 10 then [str ''0123456789'' ! n]
      else show_nat (n div 10) @ [str ''0123456789'' ! (n mod 10)])"

text \<open>\<open>xs.map(m => `- ${m}`).join('\n')\<close> and the general \<open>join\<close>.\<close>

fun js_join :: "js_string \<Rightarrow> js_string list \<Rightarrow> js_string" where
  "js_join sep [] = []"
| "js_join sep [x] = x"
| "js_join sep (x # y # ys) = x @ sep @ js_join sep (y # ys)"

definition bullet_lines :: "js_string list \<Rightarrow> js_string" where
  "bullet_lines ms = js_join nl (map (\<lambda>m. str ''- '' @ m) ms)"

text \<open>
  \<open>xs.sort(f)\<close>: the sort of ECMAScript is stable, and with a consistent comparator
  \<open>f\<close> its result is the one of a stable insertion sort: \<open>a\<close> stays before \<open>b\<close>
  unless \<open>f(a, b) > 0\<close>. The comparator returns a number, an \<open>int\<close> or a \<open>real\<close> here.
\<close>

fun insert_by :: "('a \<Rightarrow> 'a \<Rightarrow> 'n::{zero,ord}) \<Rightarrow> 'a \<Rightarrow> 'a list \<Rightarrow> 'a list" where
  "insert_by f x [] = [x]"
| "insert_by f x (y # ys) = (if f x y \<le> 0 then x # y # ys else y # insert_by f x ys)"

definition js_sort :: "('a \<Rightarrow> 'a \<Rightarrow> 'n::{zero,ord}) \<Rightarrow> 'a list \<Rightarrow> 'a list" where
  "js_sort f xs = foldr (insert_by f) xs []"

section \<open>Errors\<close>

text \<open>
  The error classes are those \<open>base.ts\<close> imports from \<open>../errors\<close>. An error value
  is its class and its \<open>message\<close>. What the constructors of that module
  make of their argument, and which classes extend which, are parameters of the model
  (\<open>error_message\<close>, \<open>error_supers\<close>); \<open>Error\<close> and \<open>TypeError\<close> are built in and
  keep their argument as the message.
\<close>

datatype err_class =
  Error | TypeError | ProviderError | NetworkError | ModelNotFoundError | ApiKeyMissingError

datatype js_error = JsError (err_class: err_class) (message: js_string)

datatype 'a promise = Resolved 'a | Rejected js_error

text \<open>
  What the module takes from outside \<open>base.ts\<close>: the two members of \<open>../errors\<close>
  above, \<open>String.prototype.toLowerCase\<close> and \<open>String.prototype.localeCompare\<close> of the
  host,
  \<open>getSimilarModels\<close> and \<open>stringSimilarity\<close> of \<open>../utils/stringSimilarity\<close>, and
  \<open>chunkMessage\<close> of \<open>../utils/messageChunker\<close>.
\<close>

record deps =
  error_supers :: "err_class \<Rightarrow> err_class list"
  error_message :: "err_class \<Rightarrow> js_string \<Rightarrow> js_string"
  toLowerCase :: "js_string \<Rightarrow> js_string"
  localeCompare :: "js_string \<Rightarrow> js_string \<Rightarrow> int"
  getSimilarModels :: "js_string \<Rightarrow> js_string list \<Rightarrow> js_string list"
  stringSimilarity :: "js_string \<Rightarrow> js_string \<Rightarrow> real"
  chunkMessage :: "js_string \<Rightarrow> nat \<Rightarrow> js_string list"

definition new_error :: "deps \<Rightarrow> err_class \<Rightarrow> js_string \<Rightarrow> js_error" where
  "new_error D c arg =
     JsError c (if c = Error \<or> c = TypeError then arg else error_message D c arg)"

text \<open>
  \<open>e instanceof c\<close>: the class of \<open>e\<close> is \<open>c\<close> or extends it. A \<open>TypeError\<close> is an
  \<open>Error\<close> and nothing else; the classes of \<open>../errors\<close> extend what
  \<open>error_supers\<close> says.
\<close>

definition instanceof :: "deps \<Rightarrow> js_error \<Rightarrow> err_class \<Rightarrow> bool" where
  "instanceof D e c =
     (err_class e = c \<or>
      (if err_class e = TypeError then c = Error
       else if err_class e = Error then False
       else c \<in> set (error_supers D (err_class e))))"

section \<open>Options and provider state\<close>

record ModelOptions =
  model :: "js_string option"
  maxTokens :: int
  systemPrompt :: "js_string option"
  tokenCount :: "int option"
  webSearch :: "bool option"
  timeout :: "int option"
  debug :: "bool option"

datatype provider =
  GoogleVertexAI | GoogleGenerativeLanguage | OpenAI | OpenRouter | Perplexity
  | ModelBox | Anthropic

fun constructor_name :: "provider \<Rightarrow> js_string" where
  "constructor_name GoogleVertexAI = str ''GoogleVertexAIProvider''"
| "constructor_name GoogleGenerativeLanguage = str ''GoogleGenerativeLanguageProvider''"
| "constructor_name OpenAI = str ''OpenAIProvider''"
| "constructor_name OpenRouter = str ''OpenRouterProvider''"
| "constructor_name Perplexity = str ''PerplexityProvider''"
| "constructor_name ModelBox = str ''ModelBoxProvider''"
| "constructor_name Anthropic = str ''AnthropicProvider''"

text \<open>
  The fields of \<open>BaseProvider\<close>. \<open>config\<close> is what \<open>loadConfig\<close> returned, of a type
  \<open>'c\<close> left open; \<open>availableModels\<close> is absent, or a promise settled with the set of
  model names in insertion order (\<open>Array.from\<close> and \<open>find\<close> follow that order) or
  with the error of \<open>initializeModels\<close>.
\<close>

record 'c BaseProvider =
  config :: 'c
  availableModels :: "js_string list promise option"

section \<open>\<open>BaseProvider.getModel\<close>\<close>

definition apos :: js_string where
  "apos = [0x27]"

text \<open>\<open>this.constructor.name.replace('Provider', '')\<close>.\<close>

definition provider_label :: "provider \<Rightarrow> js_string" where
  "provider_label p = js_replace (constructor_name p) (str ''Provider'') []"

text \<open>
  The regular expression \<open>/^(.*?)(?:-exp(?:-.*)?$)/\<close> has no flag: \<open>.\<close> matches any
  code unit but a line terminator and \<open>$\<close> only the end of the input.
  \<open>exp_tail s\<close> says that \<open>-exp(?:-.*)?$\<close> matches all of \<open>s\<close>; \<open>exp_stem name\<close> is
  group 1 of the match, the lazy \<open>.*?\<close> taking the shortest prefix that works, and
  \<open>None\<close> when \<open>match\<close> returns \<open>null\<close>.
\<close>

definition exp_tail :: "js_string \<Rightarrow> bool" where
  "exp_tail s =
     (s = str ''-exp'' \<or>
      (startsWith s (str ''-exp-'') \<and> list_all (\<lambda>c. \<not> is_line_terminator c) (drop 5 s)))"

fun exp_stem :: "js_string \<Rightarrow> js_string option" where
  "exp_stem [] = None"
| "exp_stem (c # cs) =
     (if exp_tail (c # cs) then Some []
      else if is_line_terminator c then None
      else map_option ((#) c) (exp_stem cs))"

text \<open>
  \<open>Array.from(availableModels).filter(m => m.startsWith(stem)).sort((a, b) =>
  b.localeCompare(a))\<close>, and the element the code takes from it:
  \<open>xs[xs.length - 1]\<close> when \<open>xs.length > 0\<close>.
\<close>

definition sort_descending :: "deps \<Rightarrow> js_string list \<Rightarrow> js_string list" where
  "sort_descending D xs = js_sort (\<lambda>a b. localeCompare D b a) xs"

definition prefix_matches :: "deps \<Rightarrow> js_string list \<Rightarrow> js_string \<Rightarrow> js_string list" where
  "prefix_matches D avail stem = sort_descending D (filter (\<lambda>m. startsWith m stem) avail)"

definition last_match :: "js_string list \<Rightarrow> js_string option" where
  "last_match xs = (if length xs > 0 then Some (last xs) else None)"

text \<open>The five attempts of \<open>getModel\<close>, each with the condition that guards it.\<close>

definition exact_match :: "js_string list \<Rightarrow> js_string \<Rightarrow> js_string option" where
  "exact_match avail name = (if name \<in> set avail then Some name else None)"

definition exactMatchWithProvider :: "js_string list \<Rightarrow> js_string \<Rightarrow> js_string option" where
  "exactMatchWithProvider avail name =
     (if \<not> js_includes name (str ''/'')
      then find (\<lambda>m. let parts = js_split (unit_of (CHR ''/'')) m
                     in length parts = 2 \<and> parts ! 1 = name) avail
      else None)"

definition prefix_match :: "deps \<Rightarrow> js_string list \<Rightarrow> js_string \<Rightarrow> js_string option" where
  "prefix_match D avail name = last_match (prefix_matches D avail name)"

definition latest_match :: "deps \<Rightarrow> js_string list \<Rightarrow> js_string \<Rightarrow> js_string option" where
  "latest_match D avail name =
     (if endsWith name (str ''-latest'')
      then last_match (prefix_matches D avail (slice_end name (length (str ''-latest''))))
      else None)"

definition exp_match :: "deps \<Rightarrow> js_string list \<Rightarrow> js_string \<Rightarrow> js_string option" where
  "exp_match D avail name =
     (case exp_stem name of
        None \<Rightarrow> None
      | Some modelWithoutExp \<Rightarrow> last_match (prefix_matches D avail modelWithoutExp))"

text \<open>The argument of the \<open>ModelNotFoundError\<close> thrown when every attempt failed.\<close>

definition not_found_head :: "provider \<Rightarrow> js_string \<Rightarrow> js_string" where
  "not_found_head p name =
     str ''Model '' @ apos @ name @ apos @ str '' not found in '' @ provider_label p @ str ''.''
     @ nl @ nl @ str ''You requested: '' @ name @ nl"

definition modelbox_note :: js_string where
  "modelbox_note =
     str ''Note: ModelBox requires provider prefixes (e.g., '' @ apos @ str ''openai/gpt-4''
     @ apos @ str '' instead of just '' @ apos @ str ''gpt-4'' @ apos @ str '').''"

definition not_found_text :: "deps \<Rightarrow> provider \<Rightarrow> js_string list \<Rightarrow> js_string \<Rightarrow> js_string" where
  "not_found_text D p avail name =
     (let similarModels = getSimilarModels D name avail
      in if length similarModels > 0
         then not_found_head p name @ str ''Similar available models:'' @ nl
              @ bullet_lines similarModels
              @ nl @ nl @ str ''Use --model with one of the above models.''
              @ (if constructor_name p = str ''ModelBoxProvider'' then str '' '' @ modelbox_note else [])
         else not_found_head p name @ str ''Recent available models:'' @ nl
              @ bullet_lines (sort_descending D avail)
              @ nl @ nl @ str ''Use --model with one of the above models.'')"

definition resolveModel ::
  "deps \<Rightarrow> provider \<Rightarrow> js_string list \<Rightarrow> js_string \<Rightarrow> js_error + js_string" where
  "resolveModel D p avail name =
     (case exact_match avail name of Some r \<Rightarrow> Inr r | None \<Rightarrow>
     (case exactMatchWithProvider avail name of Some r \<Rightarrow> Inr r | None \<Rightarrow>
     (case prefix_match D avail name of Some r \<Rightarrow> Inr r | None \<Rightarrow>
     (case latest_match D avail name of Some r \<Rightarrow> Inr r | None \<Rightarrow>
     (case exp_match D avail name of Some r \<Rightarrow> Inr r | None \<Rightarrow>
        Inl (new_error D ModelNotFoundError (not_found_text D p avail name)))))))"

text \<open>
  \<open>getModel\<close>: \<open>options?.model\<close> is falsy when \<open>options\<close> is undefined, when the field is
  absent and when it is the empty string; an absent \<open>availableModels\<close> returns the name
  as it is, and awaiting a rejected promise throws its error. The calls of
  \<open>console.log\<close> are left out.
\<close>

definition getModel ::
  "deps \<Rightarrow> provider \<Rightarrow> ('c, 'z) BaseProvider_scheme \<Rightarrow> ModelOptions option
   \<Rightarrow> js_error + js_string" where
  "getModel D p this options =
     (case (case options of None \<Rightarrow> None | Some opts \<Rightarrow> model opts) of
        None \<Rightarrow> Inl (new_error D ModelNotFoundError (provider_label p))
      | Some name \<Rightarrow>
          if name = [] then Inl (new_error D ModelNotFoundError (provider_label p))
          else (case availableModels this of
                  None \<Rightarrow> Inr name
                | Some (Rejected e) \<Rightarrow> Inl e
                | Some (Resolved avail) \<Rightarrow> resolveModel D p avail name))"

section \<open>\<open>retryWithBackoff\<close>\<close>

text \<open>
  The operation is a thunk with effects: \<open>operation k\<close> is what its invocation number
  \<open>k\<close> (from 0) settles with, \<open>Inl\<close> for a rejection. The loop keeps \<open>attempt\<close> as the
  source does; the record it returns also counts the invocations made and lists the
  delays handed to \<open>setTimeout\<close>, in order. \<open>console.warn\<close> is left out.
\<close>

record 'a retried =
  outcome :: "js_error + 'a"
  invocations :: nat
  delays :: "nat list"

function retry_loop ::
  "(nat \<Rightarrow> js_error + 'a) \<Rightarrow> nat \<Rightarrow> nat \<Rightarrow> (js_error \<Rightarrow> bool) \<Rightarrow> nat \<Rightarrow> nat \<Rightarrow> nat list
   \<Rightarrow> 'a retried" where
  "retry_loop operation maxAttempts baseDelay shouldRetry attempt invoked waited =
     (case operation invoked of
        Inr v \<Rightarrow> \<lparr>outcome = Inr v, invocations = Suc invoked, delays = waited\<rparr>
      | Inl error \<Rightarrow>
          if attempt \<ge> maxAttempts \<or> \<not> shouldRetry error
          then \<lparr>outcome = Inl error, invocations = Suc invoked, delays = waited\<rparr>
          else retry_loop operation maxAttempts baseDelay shouldRetry (attempt + 1)
                 (Suc invoked) (waited @ [baseDelay * 2 ^ (attempt - 1)]))"
  by pat_completeness auto
termination
  by (relation "measure (\<lambda>(operation, maxAttempts, baseDelay, shouldRetry, attempt, invoked,
        waited). maxAttempts - attempt)") auto

definition retryWithBackoff ::
  "(nat \<Rightarrow> js_error + 'a) \<Rightarrow> nat \<Rightarrow> nat \<Rightarrow> (js_error \<Rightarrow> bool) \<Rightarrow> 'a retried" where
  "retryWithBackoff operation maxAttempts baseDelay shouldRetry =
     retry_loop operation maxAttempts baseDelay shouldRetry 1 0 []"

text \<open>The default arguments: \<open>maxAttempts = 5\<close>, \<open>baseDelay = 1000\<close>, \<open>shouldRetry = () => true\<close>.\<close>

definition retryWithBackoff_default :: "(nat \<Rightarrow> js_error + 'a) \<Rightarrow> 'a retried" where
  "retryWithBackoff_default operation = retryWithBackoff operation 5 1000 (\<lambda>error. True)"

text \<open>The \<open>shouldRetry\<close> arguments of the two Google providers and of Perplexity.\<close>

definition google_shouldRetry :: "deps \<Rightarrow> js_error \<Rightarrow> bool" where
  "google_shouldRetry D error =
     (if instanceof D error NetworkError
      then (let errorText = toLowerCase D (message error)
            in js_includes errorText (str ''429'') \<or> js_includes errorText (str ''resource exhausted''))
      else False)"

definition perplexity_shouldRetry :: "deps \<Rightarrow> js_error \<Rightarrow> bool" where
  "perplexity_shouldRetry D error =
     (if instanceof D error NetworkError
      then (let errorText = toLowerCase D (message error)
            in js_includes errorText (str ''429'') \<or> js_includes errorText (str ''rate limit''))
      else False)"

section \<open>\<open>handleLargeTokenCount\<close>\<close>

record token_verdict =
  switch_model :: "js_string option"
  switch_error :: "js_string option"

definition too_large_text :: js_string where
  "too_large_text =
     str ''Repository content is too large for Vertex AI API.'' @ nl @
     str ''Please try:'' @ nl @
     str ''1. Using a more specific query to document a particular feature or module'' @ nl @
     str ''2. Running the documentation command on a specific directory or file'' @ nl @
     (str ''3. Cloning the repository locally and using .gitignore to exclude non-essential files'')"

text \<open>
  \<open>BaseProvider\<close> returns \<open>{}\<close>; the two Google providers override it, each with its own
  model name. \<open>console.error\<close> is left out.
\<close>

definition handleLargeTokenCount :: "provider \<Rightarrow> int \<Rightarrow> token_verdict" where
  "handleLargeTokenCount p tokens =
     (if p = GoogleVertexAI \<or> p = GoogleGenerativeLanguage then
        if tokens > 800000 \<and> tokens < 2000000
        then \<lparr>switch_model = Some (if p = GoogleVertexAI then str ''gemini-2.0-pro-exp-02-05''
                                   else str ''gemini-2.0-pro-exp''),
              switch_error = None\<rparr>
        else if tokens \<ge> 2000000
        then \<lparr>switch_model = None, switch_error = Some too_large_text\<rparr>
        else \<lparr>switch_model = None, switch_error = None\<rparr>
      else \<lparr>switch_model = None, switch_error = None\<rparr>)"

section \<open>Responses of the Google APIs\<close>

text \<open>
  The shapes of \<open>GeminiGroundingChunk\<close>, \<open>GeminiGroundingSupport\<close> and
  \<open>GeminiGroundingMetadata\<close>. The values come from \<open>response.json()\<close> and are cast
  to these interfaces without a check, so every field may be absent, also one the
  interface declares mandatory (\<open>uri\<close>, \<open>segment\<close>, its \<open>text\<close>,
  \<open>groundingChunkIndices\<close>). The indices of a support are numbers of the JSON
  document (\<open>int\<close>).
\<close>

record web_source =
  uri :: "js_string option"
  title :: "js_string option"

datatype GeminiGroundingChunk = Chunk (web: "web_source option")

datatype support_segment = Segment (segment_text: "js_string option")

record GeminiGroundingSupport =
  segment :: "support_segment option"
  groundingChunkIndices :: "int list option"

record GeminiGroundingMetadata =
  groundingChunks :: "GeminiGroundingChunk list option"
  groundingSupports :: "GeminiGroundingSupport list option"
  webSearchQueries :: "js_string list option"

datatype gemini_part = Part (part_text: "js_string option")

datatype gemini_content = Content (content_parts: "gemini_part list option")

record gemini_candidate =
  cand_content :: "gemini_content option"
  groundingMetadata :: "GeminiGroundingMetadata option"

datatype gemini_data = Data (candidates: "gemini_candidate list option")

text \<open>
  What one invocation of the operation meets: something thrown before the response is
  read (by \<open>getAuthClient\<close>, \<open>getAPIKey\<close>, \<open>fetch\<close> or \<open>response.json()\<close>), a response
  that is not \<open>ok\<close> with its status and text, or the JSON document.
\<close>

datatype google_response = Fails js_error | HttpError nat js_string | HttpOk gemini_data

text \<open>\<open>Map.prototype.set\<close>: a new key goes last, a known key keeps its place.\<close>

fun map_set :: "('k \<times> 'v) list \<Rightarrow> 'k \<Rightarrow> 'v \<Rightarrow> ('k \<times> 'v) list" where
  "map_set [] k v = [(k, v)]"
| "map_set ((k', v') # kvs) k v =
     (if k' = k then (k, v) # kvs else (k', v') # map_set kvs k v)"

text \<open>The \<open>forEach\<close> over \<open>groundingChunks\<close> that fills \<open>citationSources\<close>.\<close>

definition citationSources :: "GeminiGroundingChunk list \<Rightarrow> (int \<times> web_source) list" where
  "citationSources chunks =
     foldl (\<lambda>sources (idx, chunk).
              case web chunk of None \<Rightarrow> sources
              | Some w \<Rightarrow> map_set sources (int idx) w)
       [] (enumerate 0 chunks)"

text \<open>
  Reading a property of \<open>undefined\<close> throws a \<open>TypeError\<close>; \<open>undefined\<close> in a template
  literal or added to a string reads \<open>undefined\<close>.
\<close>

definition type_error :: js_error where
  "type_error = JsError TypeError (str ''Cannot read properties of undefined'')"

definition js_to_string :: "js_string option \<Rightarrow> js_string" where
  "js_to_string v = (case v of None \<Rightarrow> (str ''undefined'') | Some s \<Rightarrow> s)"

text \<open>
  \<open>support.groundingChunkIndices.map(idx => citationSources.get(idx) ? `[${idx + 1}]` :
  '').filter(Boolean).join('')\<close>, which throws when the support has no
  \<open>groundingChunkIndices\<close>.
\<close>

definition marker :: "int \<Rightarrow> js_string" where
  "marker idx = str ''['' @ show_nat (nat (idx + 1)) @ str '']''"

definition citations_of ::
  "(int \<times> web_source) list \<Rightarrow> GeminiGroundingSupport \<Rightarrow> js_error + js_string" where
  "citations_of sources support =
     (case groundingChunkIndices support of
        None \<Rightarrow> Inl type_error
      | Some indices \<Rightarrow>
          Inr (js_join []
                 (filter (\<lambda>s. s \<noteq> [])
                    (map (\<lambda>idx. case map_of sources idx of
                                  Some source \<Rightarrow> marker idx | None \<Rightarrow> [])
                       indices))))"

text \<open>
  The \<open>forEach\<close> over \<open>groundingSupports\<close> that builds \<open>formattedText\<close>: for each
  support the citations first, then \<open>segment.text\<close>, which throws when the support
  has no \<open>segment\<close>. What is thrown ends the loop.
\<close>

definition formattedText ::
  "(int \<times> web_source) list \<Rightarrow> GeminiGroundingSupport list \<Rightarrow> js_error + js_string" where
  "formattedText sources supports =
     foldl (\<lambda>acc support.
              case acc of
                Inl e \<Rightarrow> Inl e
              | Inr formatted \<Rightarrow>
                  (case citations_of sources support of
                     Inl e \<Rightarrow> Inl e
                   | Inr citations \<Rightarrow>
                       (case segment support of
                          None \<Rightarrow> Inl type_error
                        | Some seg \<Rightarrow>
                            Inr (formatted @ js_to_string (segment_text seg)
                                 @ (if citations \<noteq> [] then str '' '' @ citations else [])
                                 @ str '' ''))))
       (Inr []) supports"

text \<open>The \<open>forEach\<close> over \<open>citationSources\<close> that builds \<open>citationsText\<close>.\<close>

definition citationsText :: "(int \<times> web_source) list \<Rightarrow> js_string" where
  "citationsText sources =
     foldl (\<lambda>acc (idx, source).
              acc @ marker idx @ str '': '' @ js_to_string (uri source)
              @ (case title source of None \<Rightarrow> []
                 | Some t \<Rightarrow> if t \<noteq> [] then str '' '' @ t else [])
              @ nl)
       (nl @ str ''Citations:'' @ nl) sources"

text \<open>The loop over \<open>webSearchQueries\<close>.\<close>

definition webSearchText :: "GeminiGroundingMetadata option \<Rightarrow> js_string" where
  "webSearchText grounding =
     (case (case grounding of None \<Rightarrow> None | Some g \<Rightarrow> webSearchQueries g) of
        None \<Rightarrow> []
      | Some queries \<Rightarrow>
          if length queries > 0
          then foldl (\<lambda>acc query. acc @ str ''- '' @ query @ nl)
                 (nl @ str ''Web search queries:'' @ nl) queries @ nl
          else [])"

text \<open>
  \<open>formattedContent\<close> as it stands before the test \<open>if (!formattedContent)\<close>, or what
  the loop over the supports threw.
\<close>

definition formattedContent ::
  "js_string option \<Rightarrow> GeminiGroundingMetadata option \<Rightarrow> js_error + js_string option" where
  "formattedContent raw grounding =
     (case grounding of
        None \<Rightarrow> Inr raw
      | Some g \<Rightarrow>
          (case (groundingSupports g, groundingChunks g) of
             (Some supports, Some chunks) \<Rightarrow>
               if length supports > 0 \<and> length chunks > 0
               then let sources = citationSources chunks
                    in (case formattedText sources supports of
                          Inl e \<Rightarrow> Inl e
                        | Inr body \<Rightarrow>
                            Inr (Some (js_trim
                              (if length sources > 0
                               then citationsText sources @ nl @ webSearchText grounding @ body
                               else webSearchText grounding @ body))))
               else Inr raw
           | _ \<Rightarrow> Inr raw))"

text \<open>
  \<open>data.candidates[0]?.content?.parts[0]?.text\<close>: indexing an absent \<open>candidates\<close> or an
  absent \<open>parts\<close> of a present \<open>content\<close> throws a \<open>TypeError\<close>; every other gap gives
  \<open>undefined\<close>. Then \<open>data.candidates[0]?.groundingMetadata\<close>.
\<close>

definition candidate_text :: "gemini_data \<Rightarrow> js_error + js_string option" where
  "candidate_text data =
     (case candidates data of
        None \<Rightarrow> Inl type_error
      | Some [] \<Rightarrow> Inr None
      | Some (c # _) \<Rightarrow>
          (case cand_content c of
             None \<Rightarrow> Inr None
           | Some ct \<Rightarrow>
               (case content_parts ct of
                  None \<Rightarrow> Inl type_error
                | Some [] \<Rightarrow> Inr None
                | Some (p # _) \<Rightarrow> Inr (part_text p))))"

definition candidate_grounding :: "gemini_data \<Rightarrow> GeminiGroundingMetadata option" where
  "candidate_grounding data =
     (case candidates data of Some (c # _) \<Rightarrow> groundingMetadata c | _ \<Rightarrow> None)"

text \<open>
  The body of the \<open>try\<close> in the operation both Google providers hand to
  \<open>retryWithBackoff\<close>, then its \<open>catch\<close>; \<open>api\<close> is \<open>Google Vertex AI\<close> or
  \<open>Google Generative Language\<close>.
\<close>

definition google_try :: "deps \<Rightarrow> js_string \<Rightarrow> google_response \<Rightarrow> js_error + js_string" where
  "google_try D api response =
     (case response of
        Fails e \<Rightarrow> Inl e
      | HttpError status errorText \<Rightarrow>
          Inl (new_error D NetworkError
                 (api @ str '' API error ('' @ show_nat status @ str ''): '' @ errorText))
      | HttpOk data \<Rightarrow>
          (case candidate_text data of
             Inl e \<Rightarrow> Inl e
           | Inr raw \<Rightarrow>
               (case formattedContent raw (candidate_grounding data) of
                  Inl e \<Rightarrow> Inl e
                | Inr None \<Rightarrow>
                    Inl (new_error D ProviderError (api @ str '' returned an empty response''))
                | Inr (Some body) \<Rightarrow>
                    if body = []
                    then Inl (new_error D ProviderError (api @ str '' returned an empty response''))
                    else Inr body)))"

definition google_operation :: "deps \<Rightarrow> js_string \<Rightarrow> google_response \<Rightarrow> js_error + js_string" where
  "google_operation D api response =
     (case google_try D api response of
        Inr body \<Rightarrow> Inr body
      | Inl error \<Rightarrow>
          if instanceof D error ProviderError then Inl error
          else Inl (new_error D NetworkError (str ''Failed to communicate with '' @ api @ str '' API'')))"

section \<open>\<open>executePrompt\<close>\<close>

text \<open>
  Objects of type \<open>ModelOptions\<close> live in a store, a list indexed by address; the
  argument \<open>options\<close> of \<open>executePrompt\<close> is an address or \<open>undefined\<close>. A spread
  \<open>{ ...options, model: m }\<close> allocates a new object at the end of the store.
\<close>

type_synonym store = "ModelOptions list"

definition deref :: "store \<Rightarrow> nat option \<Rightarrow> ModelOptions option" where
  "deref h r = (case r of None \<Rightarrow> None | Some a \<Rightarrow> if a < length h then Some (h ! a) else None)"

text \<open>
  What a provider sends to its vendor: the model (in the URL for Google, in the body
  elsewhere), the system and user texts, the token limit and whether it goes under
  \<open>max_completion_tokens\<close>, and whether web search is asked for.
\<close>

record request =
  req_model :: js_string
  req_system :: "js_string option"
  req_user :: js_string
  req_max_tokens :: int
  req_completion_tokens :: bool
  req_web_search :: bool

text \<open>
  A run of \<open>executePrompt\<close>: what the promise settles with, the fields of the provider
  and the store afterwards, and the requests sent, in order.
\<close>

record 'c run =
  result :: "js_error + js_string"
  this_after :: "'c BaseProvider"
  store_after :: store
  requests :: "request list"

definition thrown :: "'c BaseProvider \<Rightarrow> store \<Rightarrow> js_error \<Rightarrow> 'c run" where
  "thrown this h e = \<lparr>result = Inl e, this_after = this, store_after = h, requests = []\<rparr>"

definition truthy :: "js_string option \<Rightarrow> bool" where
  "truthy s = (case s of None \<Rightarrow> False | Some x \<Rightarrow> x \<noteq> [])"

definition getSystemPrompt :: "ModelOptions option \<Rightarrow> js_string" where
  "getSystemPrompt options =
     (let given = (case options of None \<Rightarrow> None | Some opts \<Rightarrow> systemPrompt opts)
      in case given of
           Some s \<Rightarrow> if s \<noteq> [] then s
                     else str ''You are a helpful assistant. Provide clear and concise responses.''
         | None \<Rightarrow> str ''You are a helpful assistant. Provide clear and concise responses.'')"

definition make_request :: "js_string \<Rightarrow> ModelOptions \<Rightarrow> js_string \<Rightarrow> bool \<Rightarrow> request" where
  "make_request name opts user completion =
     \<lparr>req_model = name,
      req_system = (let s = getSystemPrompt (Some opts) in if s \<noteq> [] then Some s else None),
      req_user = user,
      req_max_tokens = maxTokens opts,
      req_completion_tokens = completion,
      req_web_search = (webSearch opts = Some True)\<rparr>"

subsection \<open>The two Google providers\<close>

text \<open>
  The block \<open>if (options?.tokenCount) { ... }\<close>: it throws, or rebinds the local
  \<open>options\<close> to a fresh copy with the model replaced, or leaves everything as it is.
\<close>

definition token_switch ::
  "deps \<Rightarrow> provider \<Rightarrow> store \<Rightarrow> nat option \<Rightarrow> js_error + (store \<times> nat option)" where
  "token_switch D p h options =
     (case deref h options of
        None \<Rightarrow> Inr (h, options)
      | Some opts \<Rightarrow>
          (case tokenCount opts of
             None \<Rightarrow> Inr (h, options)
           | Some tokens \<Rightarrow>
               if tokens = 0 then Inr (h, options)
               else let verdict = handleLargeTokenCount p tokens in
                 (case switch_error verdict of
                    Some e \<Rightarrow>
                      if e \<noteq> [] then Inl (new_error D ProviderError e)
                      else if truthy (switch_model verdict)
                      then Inr (h @ [opts\<lparr>model := switch_model verdict\<rparr>], Some (length h))
                      else Inr (h, options)
                  | None \<Rightarrow>
                      if truthy (switch_model verdict)
                      then Inr (h @ [opts\<lparr>model := switch_model verdict\<rparr>], Some (length h))
                      else Inr (h, options))))"

definition google_call ::
  "deps \<Rightarrow> js_string \<Rightarrow> (nat \<Rightarrow> request \<Rightarrow> google_response) \<Rightarrow> request \<Rightarrow> 'c BaseProvider
   \<Rightarrow> store \<Rightarrow> 'c run" where
  "google_call D api vendor req this h =
     (let r = retryWithBackoff (\<lambda>k. google_operation D api (vendor k req)) 5 1000
                (google_shouldRetry D)
      in \<lparr>result = outcome r, this_after = this, store_after = h,
          requests = replicate (invocations r) req\<rparr>)"

definition vertex_not_found_text :: "deps \<Rightarrow> js_string list \<Rightarrow> js_string \<Rightarrow> js_string" where
  "vertex_not_found_text D avail name =
     str ''Model '' @ apos @ name @ apos @ str '' not found in Vertex AI.'' @ nl @ nl
     @ str ''You requested: '' @ name @ nl
     @ str ''Similar available models:'' @ nl @ bullet_lines (getSimilarModels D name avail)
     @ nl @ nl @ str ''Use --model with one of the above models.''"

text \<open>
  \<open>GoogleVertexAIProvider.executePrompt\<close>: the model is resolved first, from the
  options as the caller gave them; the token block follows; the URL is built from the
  constant \<open>model\<close>.
\<close>

definition executePrompt_Vertex ::
  "deps \<Rightarrow> (nat \<Rightarrow> request \<Rightarrow> google_response) \<Rightarrow> 'c BaseProvider \<Rightarrow> store \<Rightarrow> nat option
   \<Rightarrow> js_string \<Rightarrow> 'c run" where
  "executePrompt_Vertex D vendor this h options prompt =
     (case getModel D GoogleVertexAI this (deref h options) of
        Inl e \<Rightarrow> thrown this h e
      | Inr name \<Rightarrow>
          (case token_switch D GoogleVertexAI h options of
             Inl e \<Rightarrow> thrown this h e
           | Inr (h1, options1) \<Rightarrow>
               (case availableModels this of
                  None \<Rightarrow> thrown this h1
                    (new_error D Error (str ''Models not initialized. Call initializeModels() first.''))
                | Some (Rejected e) \<Rightarrow> thrown this h1 e
                | Some (Resolved avail) \<Rightarrow>
                    if name \<notin> set avail
                    then thrown this h1
                           (new_error D ModelNotFoundError (vertex_not_found_text D avail name))
                    else (case deref h1 options1 of
                            None \<Rightarrow> thrown this h1 type_error
                          | Some opts \<Rightarrow>
                              google_call D (str ''Google Vertex AI'') vendor
                                (make_request name opts prompt False) this h1))))"

text \<open>
  \<open>GoogleGenerativeLanguageProvider.executePrompt\<close>: the token block comes first and
  the model is resolved from the options it leaves.
\<close>

definition executePrompt_GenerativeLanguage ::
  "deps \<Rightarrow> (nat \<Rightarrow> request \<Rightarrow> google_response) \<Rightarrow> 'c BaseProvider \<Rightarrow> store \<Rightarrow> nat option
   \<Rightarrow> js_string \<Rightarrow> 'c run" where
  "executePrompt_GenerativeLanguage D vendor this h options prompt =
     (case token_switch D GoogleGenerativeLanguage h options of
        Inl e \<Rightarrow> thrown this h e
      | Inr (h1, options1) \<Rightarrow>
          (case getModel D GoogleGenerativeLanguage this (deref h1 options1) of
             Inl e \<Rightarrow> thrown this h1 e
           | Inr name \<Rightarrow>
               (case deref h1 options1 of
                  None \<Rightarrow> thrown this h1 type_error
                | Some opts \<Rightarrow>
                    google_call D (str ''Google Generative Language'') vendor
                      (make_request name opts prompt False) this h1)))"

subsection \<open>The providers on the OpenAI client\<close>

text \<open>
  \<open>client.chat.completions.create\<close> throws, or returns the choices, each with its
  \<open>message.content\<close> (a string or \<open>null\<close>). \<open>response.choices[0].message.content\<close>
  throws a \<open>TypeError\<close> when there is no first choice.
\<close>

datatype openai_response = ClientThrows js_error | Completion "js_string option list"

definition first_content :: "openai_response \<Rightarrow> js_error + js_string option" where
  "first_content response =
     (case response of
        ClientThrows e \<Rightarrow> Inl e
      | Completion [] \<Rightarrow> Inl type_error
      | Completion (c # _) \<Rightarrow> Inr c)"

definition communicate_error :: "deps \<Rightarrow> js_string \<Rightarrow> js_error" where
  "communicate_error D who = new_error D NetworkError (str ''Failed to communicate with '' @ who @ str '' API'')"

definition empty_response :: "deps \<Rightarrow> js_string \<Rightarrow> js_error" where
  "empty_response D who = new_error D ProviderError (who @ str '' returned an empty response'')"

text \<open>\<open>OpenAIBase.executePrompt\<close>, for a subclass \<open>p\<close> that does not override it.\<close>

definition executePrompt_OpenAIBase ::
  "deps \<Rightarrow> provider \<Rightarrow> (nat \<Rightarrow> request \<Rightarrow> openai_response) \<Rightarrow> 'c BaseProvider \<Rightarrow> store
   \<Rightarrow> nat option \<Rightarrow> js_string \<Rightarrow> 'c run" where
  "executePrompt_OpenAIBase D p vendor this h options prompt =
     (case getModel D p this (deref h options) of
        Inl e \<Rightarrow> thrown this h e
      | Inr name \<Rightarrow>
          (case deref h options of
             None \<Rightarrow> thrown this h type_error
           | Some opts \<Rightarrow>
               (let req = make_request name opts prompt False;
                    tried = (case first_content (vendor 0 req) of
                               Inl e \<Rightarrow> Inl e
                             | Inr c \<Rightarrow> if truthy c then Inr (case c of Some s \<Rightarrow> s | None \<Rightarrow> [])
                                        else Inl (empty_response D (constructor_name p)))
                in \<lparr>result = (case tried of
                                Inr s \<Rightarrow> Inr s
                              | Inl error \<Rightarrow>
                                  if instanceof D error ProviderError then Inl error
                                  else Inl (communicate_error D (constructor_name p))),
                    this_after = this, store_after = h, requests = [req]\<rparr>)))"

text \<open>
  \<open>OpenAIProvider.executePrompt\<close>: one call for each chunk of the prompt. The loop
  returns what it throws or the combined text, and the number of calls made.
\<close>

fun openai_chunks ::
  "deps \<Rightarrow> (nat \<Rightarrow> request \<Rightarrow> openai_response) \<Rightarrow> (js_string \<Rightarrow> request) \<Rightarrow> nat \<Rightarrow> js_string list
   \<Rightarrow> js_string \<Rightarrow> (js_error + js_string) \<times> nat" where
  "openai_chunks D vendor mk k [] combined = (Inr combined, k)"
| "openai_chunks D vendor mk k (chunk # rest) combined =
     (case first_content (vendor k (mk chunk)) of
        Inl error \<Rightarrow>
          (if instanceof D error ProviderError then Inl error
           else Inl (communicate_error D (str ''OpenAIProvider'')), Suc k)
      | Inr c \<Rightarrow>
          openai_chunks D vendor mk (Suc k) rest
            (if truthy c then combined @ (case c of Some s \<Rightarrow> s | None \<Rightarrow> []) @ nl
             else combined))"

definition executePrompt_OpenAI ::
  "deps \<Rightarrow> (nat \<Rightarrow> request \<Rightarrow> openai_response) \<Rightarrow> 'c BaseProvider \<Rightarrow> store \<Rightarrow> nat option
   \<Rightarrow> js_string \<Rightarrow> 'c run" where
  "executePrompt_OpenAI D vendor this h options prompt =
     (case getModel D OpenAI this (deref h options) of
        Inl e \<Rightarrow> thrown this h e
      | Inr name \<Rightarrow>
          (case deref h options of
             None \<Rightarrow> thrown this h type_error
           | Some opts \<Rightarrow>
               (let promptChunks = chunkMessage D prompt 1048576;
                    mk = (\<lambda>chunk. make_request name opts chunk (startsWith name (str ''o'')));
                    looped = openai_chunks D vendor mk 0 promptChunks []
                in \<lparr>result =
                      (case fst looped of
                         Inl e \<Rightarrow> Inl e
                       | Inr combined \<Rightarrow>
                           if js_trim combined = []
                           then Inl (new_error D ProviderError
                                  (str ''OpenAIProvider returned an overall empty response after processing chunks.''))
                           else Inr (js_trim combined)),
                    this_after = this, store_after = h,
                    requests = map mk (take (snd looped) promptChunks)\<rparr>)))"

text \<open>
  \<open>OpenRouterProvider.executePrompt\<close>; the \<open>timeout\<close> and \<open>maxRetries\<close> given to the
  client are part of the vendor.
\<close>

definition executePrompt_OpenRouter ::
  "deps \<Rightarrow> (nat \<Rightarrow> request \<Rightarrow> openai_response) \<Rightarrow> 'c BaseProvider \<Rightarrow> store \<Rightarrow> nat option
   \<Rightarrow> js_string \<Rightarrow> 'c run" where
  "executePrompt_OpenRouter D vendor this h options prompt =
     (case getModel D OpenRouter this (deref h options) of
        Inl e \<Rightarrow> thrown this h e
      | Inr name \<Rightarrow>
          (case deref h options of
             None \<Rightarrow> thrown this h type_error
           | Some opts \<Rightarrow>
               (let req = make_request name opts prompt False;
                    tried = (case first_content (vendor 0 req) of
                               Inl e \<Rightarrow> Inl e
                             | Inr c \<Rightarrow> if truthy c then Inr (case c of Some s \<Rightarrow> s | None \<Rightarrow> [])
                                        else Inl (empty_response D (str ''OpenRouterProvider'')))
                in \<lparr>result = (case tried of
                                Inr s \<Rightarrow> Inr s
                              | Inl error \<Rightarrow>
                                  if instanceof D error ProviderError
                                     \<or> instanceof D error NetworkError then Inl error
                                  else Inl (communicate_error D (str ''OpenRouterProvider''))),
                    this_after = this, store_after = h, requests = [req]\<rparr>)))"

text \<open>
  \<open>ModelBoxProvider\<close>: \<open>modelWithoutPrefix\<close>, the models that match a name, the similar
  models of the error text, \<open>executeWithModel\<close>, and \<open>executePrompt\<close> with its
  \<open>try\<close> and \<open>catch\<close>.
\<close>

definition without_prefix :: "js_string \<Rightarrow> js_string" where
  "without_prefix name = (if js_includes name (str ''/'') then js_split (unit_of (CHR ''/'')) name ! 1 else name)"

definition matchingModels :: "js_string list \<Rightarrow> js_string \<Rightarrow> js_string list" where
  "matchingModels avail name =
     filter (\<lambda>m. m = name \<or> m = str ''openai/'' @ name
                 \<or> endsWith m (str ''/'' @ without_prefix name) \<or> m = without_prefix name) avail"

definition similar_by_score :: "deps \<Rightarrow> js_string list \<Rightarrow> js_string \<Rightarrow> js_string list" where
  "similar_by_score D avail name =
     js_sort (\<lambda>a b. stringSimilarity D (without_prefix name) (without_prefix b)
                    - stringSimilarity D (without_prefix name) (without_prefix a))
       (filter (\<lambda>m. stringSimilarity D (without_prefix name) (without_prefix m) > 0.5) avail)"

definition modelbox_not_found_text :: "deps \<Rightarrow> js_string list \<Rightarrow> js_string \<Rightarrow> js_string" where
  "modelbox_not_found_text D avail name =
     str ''Model '' @ apos @ name @ apos @ str '' not found in ModelBox.'' @ nl @ nl
     @ str ''You requested: '' @ name @ nl
     @ str ''Similar available models:'' @ nl
     @ bullet_lines (take 5 (similar_by_score D avail name))
     @ nl @ nl @ str ''Use --model with one of the above models. '' @ modelbox_note"

definition executeWithModel ::
  "deps \<Rightarrow> (nat \<Rightarrow> request \<Rightarrow> openai_response) \<Rightarrow> request \<Rightarrow> js_error + js_string" where
  "executeWithModel D vendor req =
     (case first_content (vendor 0 req) of
        Inl e \<Rightarrow> Inl e
      | Inr c \<Rightarrow> if truthy c then Inr (case c of Some s \<Rightarrow> s | None \<Rightarrow> [])
                 else Inl (empty_response D (str ''ModelBoxProvider'')))"

definition modelbox_choice :: "deps \<Rightarrow> 'c BaseProvider \<Rightarrow> js_string \<Rightarrow> js_error + js_string" where
  "modelbox_choice D this name =
     (case availableModels this of
        None \<Rightarrow> Inl (new_error D Error (str ''Models not initialized. Call initializeModels() first.''))
      | Some (Rejected e) \<Rightarrow> Inl e
      | Some (Resolved avail) \<Rightarrow>
          if name \<in> set avail then Inr name
          else (case find (\<lambda>m. let parts = js_split (unit_of (CHR ''/'')) m
                               in length parts = 2 \<and> parts ! 1 = without_prefix name) avail of
                  Some qualified \<Rightarrow> Inr qualified
                | None \<Rightarrow>
                    if length (matchingModels avail name) = 0
                    then Inl (new_error D ModelNotFoundError (modelbox_not_found_text D avail name))
                    else Inr (matchingModels avail name ! 0)))"

definition executePrompt_ModelBox ::
  "deps \<Rightarrow> (nat \<Rightarrow> request \<Rightarrow> openai_response) \<Rightarrow> 'c BaseProvider \<Rightarrow> store \<Rightarrow> nat option
   \<Rightarrow> js_string \<Rightarrow> 'c run" where
  "executePrompt_ModelBox D vendor this h options prompt =
     (case getModel D ModelBox this (deref h options) of
        Inl e \<Rightarrow> thrown this h e
      | Inr name \<Rightarrow>
          (case deref h options of
             None \<Rightarrow> thrown this h type_error
           | Some opts \<Rightarrow>
               (let chosen = modelbox_choice D this name;
                    tried = (case chosen of
                               Inl e \<Rightarrow> Inl e
                             | Inr m \<Rightarrow> executeWithModel D vendor (make_request m opts prompt False))
                in \<lparr>result = (case tried of
                                Inr s \<Rightarrow> Inr s
                              | Inl error \<Rightarrow>
                                  if instanceof D error ProviderError
                                     \<or> instanceof D error NetworkError then Inl error
                                  else Inl (communicate_error D (str ''ModelBoxProvider''))),
                    this_after = this, store_after = h,
                    requests = (case chosen of
                                  Inl e \<Rightarrow> []
                                | Inr m \<Rightarrow> [make_request m opts prompt False])\<rparr>)))"

subsection \<open>Perplexity\<close>

text \<open>
  \<open>fetch\<close> throws, or answers not \<open>ok\<close> with a text, or with a document whose
  \<open>choices\<close> may be absent; \<open>data.choices[0]?.message?.content\<close>.
\<close>

datatype perplexity_response =
  FetchThrows js_error | NotOk js_string | Answer "js_string option list option"

definition perplexity_try :: "deps \<Rightarrow> perplexity_response \<Rightarrow> js_error + js_string" where
  "perplexity_try D response =
     (case response of
        FetchThrows e \<Rightarrow> Inl e
      | NotOk errorText \<Rightarrow> Inl (new_error D NetworkError (str ''Perplexity API error: '' @ errorText))
      | Answer None \<Rightarrow> Inl type_error
      | Answer (Some []) \<Rightarrow> Inl (new_error D ProviderError (str ''Perplexity returned an empty response''))
      | Answer (Some (c # _)) \<Rightarrow>
          if truthy c then Inr (case c of Some s \<Rightarrow> s | None \<Rightarrow> [])
          else Inl (new_error D ProviderError (str ''Perplexity returned an empty response'')))"

definition perplexity_operation ::
  "deps \<Rightarrow> (nat \<Rightarrow> request \<Rightarrow> perplexity_response) \<Rightarrow> 'c BaseProvider \<Rightarrow> ModelOptions option
   \<Rightarrow> js_string \<Rightarrow> nat \<Rightarrow> js_error + js_string" where
  "perplexity_operation D vendor this options prompt k =
     (case getModel D Perplexity this options of
        Inl e \<Rightarrow> Inl e
      | Inr name \<Rightarrow>
          (case options of
             None \<Rightarrow> Inl type_error
           | Some opts \<Rightarrow>
               (case perplexity_try D (vendor k (make_request name opts prompt False)) of
                  Inr s \<Rightarrow> Inr s
                | Inl error \<Rightarrow>
                    if instanceof D error ProviderError \<or> instanceof D error NetworkError
                    then Inl error
                    else Inl (communicate_error D (str ''Perplexity'')))))"

text \<open>\<open>key\<close> is \<open>process.env.PERPLEXITY_API_KEY\<close>.\<close>

definition executePrompt_Perplexity ::
  "deps \<Rightarrow> js_string option \<Rightarrow> (nat \<Rightarrow> request \<Rightarrow> perplexity_response) \<Rightarrow> 'c BaseProvider
   \<Rightarrow> store \<Rightarrow> nat option \<Rightarrow> js_string \<Rightarrow> 'c run" where
  "executePrompt_Perplexity D key vendor this h options prompt =
     (if \<not> truthy key then thrown this h (new_error D ApiKeyMissingError (str ''Perplexity''))
      else let r = retryWithBackoff
                     (perplexity_operation D vendor this (deref h options) prompt) 5 1000
                     (perplexity_shouldRetry D)
           in \<lparr>result = outcome r, this_after = this, store_after = h,
               requests =
                 (case (getModel D Perplexity this (deref h options), deref h options) of
                    (Inr name, Some opts) \<Rightarrow>
                      replicate (invocations r) (make_request name opts prompt False)
                  | _ \<Rightarrow> [])\<rparr>)"

subsection \<open>Anthropic\<close>

datatype content_block = TextBlock js_string | OtherBlock

datatype anthropic_response = MessagesThrows js_error | Message "content_block list"

definition anthropic_try :: "deps \<Rightarrow> anthropic_response \<Rightarrow> js_error + js_string" where
  "anthropic_try D response =
     (case response of
        MessagesThrows e \<Rightarrow> Inl e
      | Message [] \<Rightarrow> Inl (new_error D ProviderError (str ''Anthropic returned an invalid response''))
      | Message (OtherBlock # _) \<Rightarrow>
          Inl (new_error D ProviderError (str ''Anthropic returned an invalid response''))
      | Message (TextBlock t # _) \<Rightarrow> Inr t)"

definition executePrompt_Anthropic ::
  "deps \<Rightarrow> (nat \<Rightarrow> request \<Rightarrow> anthropic_response) \<Rightarrow> 'c BaseProvider \<Rightarrow> store \<Rightarrow> nat option
   \<Rightarrow> js_string \<Rightarrow> 'c run" where
  "executePrompt_Anthropic D vendor this h options prompt =
     (case getModel D Anthropic this (deref h options) of
        Inl e \<Rightarrow> thrown this h e
      | Inr name \<Rightarrow>
          (case deref h options of
             None \<Rightarrow> thrown this h type_error
           | Some opts \<Rightarrow>
               (let req = make_request name opts prompt False
                in \<lparr>result = (case anthropic_try D (vendor 0 req) of
                                Inr s \<Rightarrow> Inr s
                              | Inl error \<Rightarrow>
                                  if instanceof D error ProviderError then Inl error
                                  else Inl (communicate_error D (str ''Anthropic''))),
                    this_after = this, store_after = h, requests = [req]\<rparr>)))"

subsection \<open>Any provider\<close>

text \<open>
  The world outside the process: the vendors, each answering the request number \<open>k\<close>,
  and the environment variable Perplexity reads.
\<close>

record world =
  google_api :: "nat \<Rightarrow> request \<Rightarrow> google_response"
  openai_api :: "nat \<Rightarrow> request \<Rightarrow> openai_response"
  perplexity_api :: "nat \<Rightarrow> request \<Rightarrow> perplexity_response"
  anthropic_api :: "nat \<Rightarrow> request \<Rightarrow> anthropic_response"
  PERPLEXITY_API_KEY :: "js_string option"

fun executePrompt ::
  "deps \<Rightarrow> world \<Rightarrow> provider \<Rightarrow> 'c BaseProvider \<Rightarrow> store \<Rightarrow> nat option \<Rightarrow> js_string \<Rightarrow> 'c run" where
  "executePrompt D W GoogleVertexAI this h options prompt =
     executePrompt_Vertex D (google_api W) this h options prompt"
| "executePrompt D W GoogleGenerativeLanguage this h options prompt =
     executePrompt_GenerativeLanguage D (google_api W) this h options prompt"
| "executePrompt D W OpenAI this h options prompt =
     executePrompt_OpenAI D (openai_api W) this h options prompt"
| "executePrompt D W OpenRouter this h options prompt =
     executePrompt_OpenRouter D (openai_api W) this h options prompt"
| "executePrompt D W Perplexity this h options prompt =
     executePrompt_Perplexity D (PERPLEXITY_API_KEY W) (perplexity_api W) this h options prompt"
| "executePrompt D W ModelBox this h options prompt =
     executePrompt_ModelBox D (openai_api W) this h options prompt"
| "executePrompt D W Anthropic this h options prompt =
     executePrompt_Anthropic D (anthropic_api W) this h options prompt"

section \<open>\<open>supportsWebSearch\<close>\<close>

text \<open>The object \<open>{ supported, model?, error? }\<close> every \<open>supportsWebSearch\<close> resolves to.\<close>

record web_search_support =
  supported :: bool
  suggested :: "js_string option"
  support_error :: "js_string option"

text \<open>The test \<open>m.includes('sonar') || m.includes('online') || m.includes('gemini')\<close>.\<close>

definition web_capable :: "js_string \<Rightarrow> bool" where
  "web_capable m = (js_includes m (str ''sonar'') \<or> js_includes m (str ''online'') \<or> js_includes m (str ''gemini''))"

definition isWebSearchSupportedModelOnModelBox :: "js_string \<Rightarrow> bool" where
  "isWebSearchSupportedModelOnModelBox name =
     (let modelWithoutPrefix = (if js_includes name (str ''/'') then js_split (unit_of (CHR ''/'')) name ! 1
                                else name)
      in js_includes modelWithoutPrefix (str ''sonar'') \<or> js_includes modelWithoutPrefix (str ''online'')
         \<or> js_includes modelWithoutPrefix (str ''gemini''))"

definition check_failed :: web_search_support where
  "check_failed =
     \<lparr>supported = False, suggested = None,
      support_error = Some (str ''Failed to check web search support. Please try again.'')\<rparr>"

text \<open>\<open>xs[0]\<close>, which is \<open>undefined\<close> on an empty array.\<close>

definition first_of :: "js_string list \<Rightarrow> js_string option" where
  "first_of xs = (case xs of [] \<Rightarrow> None | x # _ \<Rightarrow> Some x)"

definition supportsWebSearch_Vertex :: "deps \<Rightarrow> 'c BaseProvider \<Rightarrow> js_string \<Rightarrow> web_search_support" where
  "supportsWebSearch_Vertex D this modelName =
     (case availableModels this of
        None \<Rightarrow> check_failed
      | Some (Rejected e) \<Rightarrow> check_failed
      | Some (Resolved avail) \<Rightarrow>
          if without_prefix modelName \<notin> set avail then
            (let webSearchModels =
                   filter web_capable (getSimilarModels D (without_prefix modelName) avail)
             in if length webSearchModels > 0
                then \<lparr>supported = False, suggested = first_of webSearchModels,
                      support_error = Some (str ''Model '' @ apos @ modelName @ apos
                        @ str '' not found. Consider using '' @ webSearchModels ! 0
                        @ str '' for web search instead.'')\<rparr>
                else \<lparr>supported = False, suggested = None,
                      support_error = Some (str ''Model '' @ apos @ modelName @ apos
                        @ str '' not found.'' @ nl @ nl @ str ''Available web search models:'' @ nl
                        @ bullet_lines (take 5 (filter web_capable avail)))\<rparr>)
          else if isWebSearchSupportedModelOnModelBox (without_prefix modelName)
          then \<lparr>supported = True, suggested = None, support_error = None\<rparr>
          else (let webSearchModels = take 5 (filter web_capable avail)
                in \<lparr>supported = False, suggested = first_of webSearchModels,
                    support_error = Some (str ''Model '' @ modelName
                      @ str '' does not support web search. Try one of these models:'' @ nl
                      @ bullet_lines webSearchModels)\<rparr>))"

definition supportsWebSearch_GenerativeLanguage :: "js_string \<Rightarrow> web_search_support" where
  "supportsWebSearch_GenerativeLanguage modelName =
     (if modelName \<in> set [str ''gemini-2.0-flash-thinking-exp-01-21'', str ''gemini-2.0-flash-thinking-exp'']
      then \<lparr>supported = False, suggested = Some (str ''gemini-2.0-pro-exp''),
            support_error = Some (str ''Model '' @ modelName @ str '' does not support web search.'')\<rparr>
      else \<lparr>supported = True, suggested = None, support_error = None\<rparr>)"

definition supportsWebSearch_OpenAI :: "js_string \<Rightarrow> web_search_support" where
  "supportsWebSearch_OpenAI modelName =
     \<lparr>supported = False, suggested = None,
      support_error = Some (str ''OpenAI does not support web search capabilities'')\<rparr>"

definition supportsWebSearch_OpenRouter :: "js_string \<Rightarrow> web_search_support" where
  "supportsWebSearch_OpenRouter modelName =
     \<lparr>supported = False, suggested = None,
      support_error = Some (str ''OpenRouter does not support web search capabilities'')\<rparr>"

definition supportsWebSearch_Perplexity :: "js_string \<Rightarrow> web_search_support" where
  "supportsWebSearch_Perplexity modelName =
     (if startsWith modelName (str ''sonar'')
      then \<lparr>supported = True, suggested = None, support_error = None\<rparr>
      else \<lparr>supported = False, suggested = Some (str ''sonar-pro''),
            support_error = Some (str ''Model '' @ modelName
              @ str '' does not support web search. Use a model with -online suffix instead.'')\<rparr>)"

definition supportsWebSearch_ModelBox :: "deps \<Rightarrow> 'c BaseProvider \<Rightarrow> js_string \<Rightarrow> web_search_support" where
  "supportsWebSearch_ModelBox D this modelName =
     (case availableModels this of
        None \<Rightarrow> check_failed
      | Some (Rejected e) \<Rightarrow> check_failed
      | Some (Resolved avail) \<Rightarrow>
          if length (matchingModels avail modelName) = 0 then
            (let webSearchModels = filter web_capable (similar_by_score D avail modelName)
             in if length webSearchModels > 0
                then \<lparr>supported = False, suggested = first_of webSearchModels,
                      support_error = Some (str ''Model '' @ apos @ modelName @ apos
                        @ str '' not found. Consider using '' @ webSearchModels ! 0
                        @ str '' for web search instead.'' @ nl
                        @ modelbox_note)\<rparr>
                else \<lparr>supported = False, suggested = None,
                      support_error = Some (str ''Model '' @ apos @ modelName @ apos
                        @ str '' not found.'' @ nl @ nl @ str ''Available web search models:'' @ nl
                        @ bullet_lines (take 5 (filter web_capable avail))
                        @ nl @ nl @ modelbox_note)\<rparr>)
          else (let resolvedModel = matchingModels avail modelName ! 0
                in if isWebSearchSupportedModelOnModelBox resolvedModel
                   then \<lparr>supported = True, suggested = None, support_error = None\<rparr>
                   else (let webSearchModels = take 5 (filter web_capable avail)
                         in \<lparr>supported = False, suggested = first_of webSearchModels,
                             support_error = Some (str ''Model '' @ resolvedModel
                               @ str '' does not support web search. Try one of these models:'' @ nl
                               @ bullet_lines webSearchModels)\<rparr>)))"

definition supportsWebSearch_Anthropic :: "js_string \<Rightarrow> web_search_support" where
  "supportsWebSearch_Anthropic modelName =
     \<lparr>supported = False, suggested = None,
      support_error = Some (str ''Anthropic does not support web search capabilities'')\<rparr>"

fun supportsWebSearch :: "deps \<Rightarrow> provider \<Rightarrow> 'c BaseProvider \<Rightarrow> js_string \<Rightarrow> web_search_support" where
  "supportsWebSearch D GoogleVertexAI this modelName = supportsWebSearch_Vertex D this modelName"
| "supportsWebSearch D GoogleGenerativeLanguage this modelName =
     supportsWebSearch_GenerativeLanguage modelName"
| "supportsWebSearch D OpenAI this modelName = supportsWebSearch_OpenAI modelName"
| "supportsWebSearch D OpenRouter this modelName = supportsWebSearch_OpenRouter modelName"
| "supportsWebSearch D Perplexity this modelName = supportsWebSearch_Perplexity modelName"
| "supportsWebSearch D ModelBox this modelName = supportsWebSearch_ModelBox D this modelName"
| "supportsWebSearch D Anthropic this modelName = supportsWebSearch_Anthropic modelName"

section \<open>A host to run the model on\<close>

text \<open>
  One choice of what comes from outside \<open>base.ts\<close>, used where the model is run on an
  example: strings compared code unit by code unit and lowered on the letters A to Z,
  \<open>NetworkError\<close>,
  \<open>ModelNotFoundError\<close> and \<open>ApiKeyMissingError\<close> extending \<open>ProviderError\<close>,
  constructors that keep their argument as the message, no similar models, and a
  prompt that is one chunk.
\<close>

fun code_unit_compare :: "js_string \<Rightarrow> js_string \<Rightarrow> int" where
  "code_unit_compare [] [] = 0"
| "code_unit_compare [] (b # bs) = - 1"
| "code_unit_compare (a # as) [] = 1"
| "code_unit_compare (a # as) (b # bs) =
     (if a = b then code_unit_compare as bs
      else if a < b then - 1 else 1)"

definition ascii_lower :: "js_string \<Rightarrow> js_string" where
  "ascii_lower s = map (\<lambda>c. if 0x41 \<le> c \<and> c \<le> 0x5A then c + 0x20 else c) s"

definition sample_deps :: deps where
  "sample_deps =
     \<lparr>error_supers = (\<lambda>c. if c = NetworkError \<or> c = ModelNotFoundError \<or> c = ApiKeyMissingError
                           then [ProviderError] else []),
      error_message = (\<lambda>c arg. arg),
      toLowerCase = ascii_lower,
      localeCompare = code_unit_compare,
      getSimilarModels = (\<lambda>name avail. []),
      stringSimilarity = (\<lambda>a b. 0),
      chunkMessage = (\<lambda>s n. [s])\<rparr>"

definition sample_options :: "js_string option \<Rightarrow> int option \<Rightarrow> ModelOptions" where
  "sample_options name tokens =
     \<lparr>model = name, maxTokens = 8000, systemPrompt = None, tokenCount = tokens,
      webSearch = None, timeout = None, debug = None\<rparr>"

definition sample_provider :: "js_string list \<Rightarrow> unit BaseProvider" where
  "sample_provider avail = \<lparr>config = (), availableModels = Some (Resolved avail)\<rparr>"

section \<open>The statements of the specification\<close>

subsection \<open>Model-name resolution\<close>

text \<open>
  \<open>localeCompare\<close> is a consistent comparator: the relation \<open>f a b \<le> 0\<close> is total and
  transitive. The stages of the resolution as the specification words them: an entry
  \<open>prefix/name\<close>, the smallest available model with a given prefix, the name without
  its \<open>-latest\<close> suffix, the name without its \<open>-exp\<close> or \<open>-exp-...\<close> suffix; and the
  first stage that matches decides.
\<close>

definition total_preorder :: "('a \<Rightarrow> 'a \<Rightarrow> 'n::{zero,ord}) \<Rightarrow> bool" where
  "total_preorder f =
     ((\<forall>a b. f a b \<le> 0 \<or> f b a \<le> 0) \<and> (\<forall>a b c. f a b \<le> 0 \<and> f b c \<le> 0 \<longrightarrow> f a c \<le> 0))"

definition smallest_with_prefix :: "deps \<Rightarrow> js_string list \<Rightarrow> js_string \<Rightarrow> js_string \<Rightarrow> bool" where
  "smallest_with_prefix D avail stem r =
     (r \<in> set avail \<and> prefix stem r \<and>
      (\<forall>m\<in>set avail. prefix stem m \<longrightarrow> localeCompare D r m \<le> 0))"

definition qualified_entry :: "js_string list \<Rightarrow> js_string \<Rightarrow> js_string \<Rightarrow> bool" where
  "qualified_entry avail name r =
     (unit_of (CHR ''/'') \<notin> set name \<and> r \<in> set avail \<and>
      (\<exists>pre. (unit_of (CHR ''/'')) \<notin> set pre \<and> r = pre @ str ''/'' @ name))"

definition latest_spec :: "deps \<Rightarrow> js_string list \<Rightarrow> js_string \<Rightarrow> js_string \<Rightarrow> bool" where
  "latest_spec D avail name r =
     (\<exists>stem. name = stem @ str ''-latest'' \<and> smallest_with_prefix D avail stem r)"

definition exp_spec :: "deps \<Rightarrow> js_string list \<Rightarrow> js_string \<Rightarrow> js_string \<Rightarrow> bool" where
  "exp_spec D avail name r =
     (\<exists>stem rest. name = stem @ str ''-exp'' @ rest \<and> (rest = [] \<or> hd rest = unit_of (CHR ''-'')) \<and>
        smallest_with_prefix D avail stem r)"

definition resolution_spec :: "deps \<Rightarrow> js_string list \<Rightarrow> js_string \<Rightarrow> js_string \<Rightarrow> bool" where
  "resolution_spec D avail name r =
     (if name \<in> set avail then r = name
      else if \<exists>x. qualified_entry avail name x then qualified_entry avail name r
      else if \<exists>x. smallest_with_prefix D avail name x then smallest_with_prefix D avail name r
      else if \<exists>x. latest_spec D avail name x then latest_spec D avail name r
      else exp_spec D avail name r)"

text \<open>
  A name is a single line when it holds no line terminator: no LF, CR, LS (U+2028) or
  PS (U+2029).
\<close>

definition single_line :: "js_string \<Rightarrow> bool" where
  "single_line s = list_all (\<lambda>c. \<not> is_line_terminator c) s"


subsection \<open>Retries\<close>

text \<open>
  Delays grow linearly from the base delay when each is the base delay plus a fixed
  step times its position. Two operations for the examples: one that always meets a
  429, one that meets it twice and then answers.
\<close>

definition grows_linearly :: "nat \<Rightarrow> nat list \<Rightarrow> bool" where
  "grows_linearly baseDelay ds =
     (\<exists>step::int. \<forall>k<length ds. int (ds ! k) = int baseDelay + step * int k)"

definition always_busy :: "nat \<Rightarrow> js_error + js_string" where
  "always_busy k = Inl (JsError NetworkError (str ''Google Vertex AI API error (429): busy''))"


subsection \<open>The reformatted body of a grounded answer\<close>
















definition is_google :: "provider \<Rightarrow> bool" where
  "is_google p = (p = GoogleVertexAI \<or> p = GoogleGenerativeLanguage)"


text \<open>A grounded answer with three chunks, two supports and one query.\<close>

definition sample_chunks :: "GeminiGroundingChunk list" where
  "sample_chunks =
     [Chunk (Some \<lparr>uri = Some (str ''https://a.example''), title = Some (str ''A'')\<rparr>),
      Chunk None,
      Chunk (Some \<lparr>uri = Some (str ''https://c.example''), title = None\<rparr>)]"

definition sample_supports :: "GeminiGroundingSupport list" where
  "sample_supports =
     [\<lparr>segment = Some (Segment (Some (str ''Sky is blue.''))), groundingChunkIndices = Some [0, 1]\<rparr>,
      \<lparr>segment = Some (Segment (Some (str ''Grass is green.''))),
       groundingChunkIndices = Some [2, 7]\<rparr>]"

definition sample_grounding :: GeminiGroundingMetadata where
  "sample_grounding =
     \<lparr>groundingChunks = Some sample_chunks, groundingSupports = Some sample_supports,
      webSearchQueries = Some [str ''sky colour'']\<rparr>"

text \<open>The same answer when its second support comes without \<open>groundingChunkIndices\<close>.\<close>

definition unreadable_grounding :: GeminiGroundingMetadata where
  "unreadable_grounding =
     sample_grounding\<lparr>groundingSupports :=
       Some [\<lparr>segment = Some (Segment (Some (str ''Sky is blue.''))),
              groundingChunkIndices = Some [0, 1]\<rparr>,
             \<lparr>segment = Some (Segment (Some (str ''Grass is green.''))),
              groundingChunkIndices = None\<rparr>]\<rparr>"

subsection \<open>A world to run \<open>executePrompt\<close> in\<close>

text \<open>
  Vendors that answer every request at once: Google, the OpenAI client and Perplexity
  with the text \<open>answer\<close>, Anthropic with one text block whose text is empty; and no
  \<open>PERPLEXITY_API_KEY\<close>. A provider that never set \<open>availableModels\<close>.
\<close>

definition google_answer :: "js_string \<Rightarrow> google_response" where
  "google_answer s =
     HttpOk (Data (Some [\<lparr>cand_content = Some (Content (Some [Part (Some s)])),
                           groundingMetadata = None\<rparr>]))"

definition sample_world :: world where
  "sample_world =
     \<lparr>google_api = (\<lambda>k req. google_answer (str ''answer'')),
      openai_api = (\<lambda>k req. Completion [Some (str ''answer'')]),
      perplexity_api = (\<lambda>k req. Answer (Some [Some (str ''answer'')])),
      anthropic_api = (\<lambda>k req. Message [TextBlock []]),
      PERPLEXITY_API_KEY = None\<rparr>"

definition plain_provider :: "unit BaseProvider" where
  "plain_provider = \<lparr>config = (), availableModels = None\<rparr>"

text \<open>A Google vendor whose every answer is the candidate text \<open>raw\<close> with the given metadata.\<close>

definition grounded_answer :: "GeminiGroundingMetadata \<Rightarrow> gemini_data" where
  "grounded_answer g =
     Data (Some [\<lparr>cand_content = Some (Content (Some [Part (Some (str ''raw''))])),
                  groundingMetadata = Some g\<rparr>])"

definition grounded_world :: "GeminiGroundingMetadata \<Rightarrow> world" where
  "grounded_world g = sample_world\<lparr>google_api := (\<lambda>k req. HttpOk (grounded_answer g))\<rparr>"

subsection \<open>Runs of \<open>executePrompt\<close> and \<open>supportsWebSearch\<close>\<close>

text \<open>
  The store after a run holds what it held, and at most one more object: a copy of the
  caller's options with another model.
\<close>

definition fresh_copy :: "store \<Rightarrow> nat option \<Rightarrow> store \<Rightarrow> bool" where
  "fresh_copy h options h1 =
     (h1 = h \<or> (\<exists>opts m. deref h options = Some opts \<and> h1 = h @ [opts\<lparr>model := Some m\<rparr>]))"

text \<open>
  No model is supplied: \<open>options\<close> is undefined, or its \<open>model\<close> is absent or empty.
  \<open>executePrompt\<close> reaches \<open>getModel\<close> with the options it was given: always, but for
  Perplexity without its API key and for Generative Language with a token count above
  800000.
\<close>

definition no_model :: "ModelOptions option \<Rightarrow> bool" where
  "no_model options = (case options of None \<Rightarrow> True | Some opts \<Rightarrow> \<not> truthy (model opts))"

definition reaches_getModel :: "world \<Rightarrow> provider \<Rightarrow> ModelOptions option \<Rightarrow> bool" where
  "reaches_getModel W p options =
     (if p = Perplexity then truthy (PERPLEXITY_API_KEY W)
      else if p = GoogleGenerativeLanguage
      then (case options of
              None \<Rightarrow> True
            | Some opts \<Rightarrow> (case tokenCount opts of None \<Rightarrow> True | Some t \<Rightarrow> t \<le> 800000))
      else True)"

text \<open>
  A model name without its \<open>provider/\<close> prefix: what follows the first \<open>/\<close>. A name
  mentions web search when it contains \<open>sonar\<close>, \<open>online\<close> or \<open>gemini\<close>.
\<close>

definition strip_provider_prefix :: "js_string \<Rightarrow> js_string" where
  "strip_provider_prefix name =
     (if (unit_of (CHR ''/'')) \<in> set name then tl (dropWhile (\<lambda>c. c \<noteq> unit_of (CHR ''/'')) name) else name)"

definition mentions_web :: "js_string \<Rightarrow> bool" where
  "mentions_web name = (sublist (str ''sonar'') name \<or> sublist (str ''online'') name \<or> sublist (str ''gemini'') name)"

section \<open>Strings: proofs\<close>

lemma of_char_less: "(of_char c :: nat) < 256"
proof -
  have "(of_char c :: nat) mod 256 < 256" by simp
  then show ?thesis by (simp only: of_char_mod_256)
qed

lemma unat_unit_of: "unat (unit_of c) = of_char c"
proof -
  have "(of_char c :: nat) < 2 ^ 16" by (rule less_trans[OF of_char_less]) simp
  then show ?thesis by (simp add: unit_of_def unat_of_nat)
qed

lemma unit_of_eq_iff [simp]: "unit_of a = unit_of b \<longleftrightarrow> a = b"
proof
  assume "unit_of a = unit_of b"
  then have "unat (unit_of a) = unat (unit_of b)" by simp
  then have "(of_char a :: nat) = of_char b" by (simp only: unat_unit_of)
  then show "a = b" by simp
qed simp

lemma str_Nil [simp]: "str [] = []"
  by (simp add: str_def)

lemma str_Cons [simp]: "str (c # cs) = unit_of c # str cs"
  by (simp add: str_def)

lemma str_append: "str (a @ b) = str a @ str b"
  by (simp add: str_def)

lemma length_str: "length (str s) = length s"
  by (simp add: str_def)

section \<open>Model-name resolution: proofs\<close>

lemma startsWith_prefix: "startsWith s p = prefix p s"
  unfolding startsWith_def prefix_def
  by (metis append_eq_conv_conj append_take_drop_id)

lemma endsWith_suffix: "endsWith s p = suffix p s"
  unfolding endsWith_def suffix_def
  by (metis append_eq_conv_conj diff_add_inverse2 length_append le_add2 append_take_drop_id)

lemma js_includes_sublist: "js_includes s p = sublist p s"
  by (induction s) (auto simp: startsWith_prefix sublist_Cons_right)

lemma js_includes_char: "js_includes s [c] = (c \<in> set s)"
  by (induction s) (auto simp: startsWith_def)

lemma js_split_nonempty: "js_split c s \<noteq> []"
  by (induction s) (auto split: list.splits)

lemma js_split_none: "c \<notin> set s \<Longrightarrow> js_split c s = [s]"
  by (induction s) auto

lemma js_split_first: "c \<notin> set pre \<Longrightarrow> js_split c (pre @ c # rest) = pre # js_split c rest"
  by (induction pre) auto

lemma js_split_length: "length (js_split c s) = Suc (count_list s c)"
  by (induction s) (auto split: list.splits simp: js_split_nonempty)

lemma set_insert_by: "set (insert_by f x xs) = insert x (set xs)"
  by (induction xs) auto

lemma mset_insert_by: "mset (insert_by f x xs) = add_mset x (mset xs)"
  by (induction xs) auto

lemma mset_js_sort: "mset (js_sort f xs) = mset xs"
  by (induction xs) (auto simp: js_sort_def mset_insert_by)

lemma set_js_sort: "set (js_sort f xs) = set xs"
  by (metis mset_js_sort set_mset_mset)

lemma sorted_insert_by:
  assumes "total_preorder f" "sorted_wrt (\<lambda>a b. f a b \<le> 0) xs"
  shows "sorted_wrt (\<lambda>a b. f a b \<le> 0) (insert_by f x xs)"
  using assms
proof (induction xs)
  case Nil
  then show ?case by simp
next
  case (Cons y ys)
  show ?case
  proof (cases "f x y \<le> 0")
    case True
    have "\<forall>z\<in>set ys. f x z \<le> 0"
      using True Cons.prems unfolding total_preorder_def by (metis sorted_wrt.simps(2))
    with True Cons.prems show ?thesis by simp
  next
    case False
    then have "f y x \<le> 0" using Cons.prems(1) unfolding total_preorder_def by blast
    with False Cons show ?thesis by (auto simp: set_insert_by)
  qed
qed

lemma sorted_js_sort:
  "total_preorder f \<Longrightarrow> sorted_wrt (\<lambda>a b. f a b \<le> 0) (js_sort f xs)"
  by (induction xs) (auto simp: js_sort_def sorted_insert_by)

lemma total_preorder_flip: "total_preorder f \<Longrightarrow> total_preorder (\<lambda>a b. f b a)"
  unfolding total_preorder_def by blast

lemma sorted_wrt_last:
  "sorted_wrt R xs \<Longrightarrow> xs \<noteq> [] \<Longrightarrow> (\<And>a. R a a) \<Longrightarrow> \<forall>m\<in>set xs. R m (last xs)"
  by (induction xs) (auto)

lemma split_two_iff:
  assumes "c \<notin> set name"
  shows "(length (js_split c m) = 2 \<and> js_split c m ! 1 = name)
         = (\<exists>pre. c \<notin> set pre \<and> m = pre @ c # name)"
proof
  assume L: "length (js_split c m) = 2 \<and> js_split c m ! 1 = name"
  then have "count_list m c = 1" by (simp add: js_split_length)
  then have "c \<in> set m" by (metis count_list_0_iff zero_neq_one)
  then obtain pre post where m: "m = pre @ c # post" and pre: "c \<notin> set pre"
    by (meson split_list_first)
  have sp: "js_split c m = pre # js_split c post" using m pre by (simp add: js_split_first)
  with L have "length (js_split c post) = 1" by simp
  then have "count_list post c = 0" by (simp add: js_split_length)
  then have "c \<notin> set post" by (simp add: count_list_0_iff)
  then have "js_split c post = [post]" by (rule js_split_none)
  with sp L have "post = name" by simp
  with m pre show "\<exists>pre. c \<notin> set pre \<and> m = pre @ c # name" by blast
next
  assume "\<exists>pre. c \<notin> set pre \<and> m = pre @ c # name"
  then obtain pre where "c \<notin> set pre" "m = pre @ c # name" by blast
  then show "length (js_split c m) = 2 \<and> js_split c m ! 1 = name"
    using assms by (simp add: js_split_first js_split_none)
qed

lemma find_Some_mem: "find P xs = Some x \<Longrightarrow> x \<in> set xs \<and> P x"
  by (induction xs) (auto split: if_splits)

lemma find_None_all: "find P xs = None \<longleftrightarrow> (\<forall>x\<in>set xs. \<not> P x)"
  by (induction xs) auto

lemma exactMatchWithProvider_Some:
  assumes "exactMatchWithProvider avail name = Some r"
  shows "qualified_entry avail name r"
proof -
  let ?P = "\<lambda>m. let parts = js_split (unit_of (CHR ''/'')) m in length parts = 2 \<and> parts ! 1 = name"
  from assms have no: "unit_of (CHR ''/'') \<notin> set name" and f: "find ?P avail = Some r"
    by (auto simp: exactMatchWithProvider_def js_includes_char split: if_splits)
  from f have "r \<in> set avail" and "?P r" by (auto dest: find_Some_mem)
  then show ?thesis
    unfolding qualified_entry_def Let_def split_two_iff[OF no] using no by simp
qed

lemma exactMatchWithProvider_None:
  "exactMatchWithProvider avail name = None \<longleftrightarrow> \<not> (\<exists>x. qualified_entry avail name x)"
proof (cases "unit_of (CHR ''/'') \<in> set name")
  case True
  then show ?thesis
    by (simp add: exactMatchWithProvider_def js_includes_char qualified_entry_def)
next
  case False
  let ?P = "\<lambda>m. let parts = js_split (unit_of (CHR ''/'')) m in length parts = 2 \<and> parts ! 1 = name"
  have P: "\<And>m. ?P m \<longleftrightarrow> (\<exists>pre. (unit_of (CHR ''/'')) \<notin> set pre \<and> m = pre @ str ''/'' @ name)"
    unfolding Let_def split_two_iff[OF False] by simp
  have "exactMatchWithProvider avail name = None \<longleftrightarrow> (\<forall>x\<in>set avail. \<not> ?P x)"
    using False unfolding exactMatchWithProvider_def find_None_all[symmetric]
    by (simp add: js_includes_char)
  also have "\<dots> \<longleftrightarrow> \<not> (\<exists>x. qualified_entry avail name x)"
    unfolding P qualified_entry_def using False by blast
  finally show ?thesis .
qed

lemma prefix_matches_set:
  "set (prefix_matches D avail stem) = {m \<in> set avail. prefix stem m}"
  by (auto simp: prefix_matches_def sort_descending_def set_js_sort startsWith_prefix)

lemma last_match_None: "last_match xs = None \<longleftrightarrow> xs = []"
  by (simp add: last_match_def)

lemma last_match_prefix_Some:
  assumes tp: "total_preorder (localeCompare D)"
    and lm: "last_match (prefix_matches D avail stem) = Some r"
  shows "smallest_with_prefix D avail stem r"
proof -
  let ?L = "prefix_matches D avail stem"
  from lm have ne: "?L \<noteq> []" and r: "r = last ?L"
    by (auto simp: last_match_def split: if_splits)
  have srt: "sorted_wrt (\<lambda>a b. localeCompare D b a \<le> 0) ?L"
    unfolding prefix_matches_def sort_descending_def
    using sorted_js_sort[OF total_preorder_flip[OF tp]] by blast
  have refl: "\<And>a. localeCompare D a a \<le> 0"
    using tp unfolding total_preorder_def by blast
  have "\<forall>m\<in>set ?L. localeCompare D (last ?L) m \<le> 0"
    using sorted_wrt_last[OF srt ne] refl by blast
  moreover have "r \<in> set ?L" using ne r by simp
  ultimately show ?thesis
    unfolding smallest_with_prefix_def using r by (auto simp: prefix_matches_set)
qed

lemma last_match_prefix_None:
  "last_match (prefix_matches D avail stem) = None \<longleftrightarrow> (\<forall>m\<in>set avail. \<not> prefix stem m)"
proof -
  have "prefix_matches D avail stem = [] \<longleftrightarrow> set (prefix_matches D avail stem) = {}" by simp
  then show ?thesis unfolding last_match_None by (auto simp: prefix_matches_set)
qed

lemma no_smallest_iff:
  assumes "total_preorder (localeCompare D)"
  shows "(\<forall>x. \<not> smallest_with_prefix D avail stem x) \<longleftrightarrow> (\<forall>m\<in>set avail. \<not> prefix stem m)"
proof
  assume "\<forall>x. \<not> smallest_with_prefix D avail stem x"
  then have "last_match (prefix_matches D avail stem) = None"
    using last_match_prefix_Some[OF assms] by (metis option.exhaust)
  then show "\<forall>m\<in>set avail. \<not> prefix stem m" by (simp add: last_match_prefix_None)
next
  assume "\<forall>m\<in>set avail. \<not> prefix stem m"
  then show "\<forall>x. \<not> smallest_with_prefix D avail stem x"
    by (auto simp: smallest_with_prefix_def)
qed

lemma endsWith_append: "endsWith name suf \<longleftrightarrow> (\<exists>stem. name = stem @ suf)"
  by (auto simp: endsWith_suffix suffix_def)

lemma slice_end_append: "slice_end (stem @ suf) (length suf) = stem"
  by (simp add: slice_end_def)

lemma latest_match_Some:
  assumes "total_preorder (localeCompare D)" "latest_match D avail name = Some r"
  shows "latest_spec D avail name r"
proof -
  from assms(2) obtain stem where n: "name = stem @ str ''-latest''"
    and lm: "last_match (prefix_matches D avail (slice_end name (length (str ''-latest'')))) = Some r"
    by (auto simp: latest_match_def endsWith_append split: if_splits)
  have "slice_end name (length (str ''-latest'')) = stem" unfolding n by (rule slice_end_append)
  with lm have "smallest_with_prefix D avail stem r"
    using last_match_prefix_Some[OF assms(1)] by simp
  with n show ?thesis unfolding latest_spec_def by blast
qed

lemma latest_match_None:
  assumes "total_preorder (localeCompare D)"
  shows "latest_match D avail name = None \<longleftrightarrow> \<not> (\<exists>x. latest_spec D avail name x)"
proof (cases "endsWith name (str ''-latest'')")
  case False
  then show ?thesis by (auto simp: latest_match_def latest_spec_def endsWith_append)
next
  case True
  then obtain stem where n: "name = stem @ str ''-latest''" by (auto simp: endsWith_append)
  have sl: "slice_end name (length (str ''-latest'')) = stem" unfolding n by (rule slice_end_append)
  have "latest_match D avail name = None \<longleftrightarrow> (\<forall>m\<in>set avail. \<not> prefix stem m)"
    using True sl by (simp add: latest_match_def last_match_prefix_None)
  also have "\<dots> \<longleftrightarrow> (\<forall>x. \<not> smallest_with_prefix D avail stem x)"
    using no_smallest_iff[OF assms] by simp
  also have "\<dots> \<longleftrightarrow> \<not> (\<exists>x. latest_spec D avail name x)"
    unfolding latest_spec_def n by auto
  finally show ?thesis .
qed

lemma exp_tail_shape:
  "exp_tail s \<Longrightarrow> \<exists>rest. s = str ''-exp'' @ rest \<and> (rest = [] \<or> hd rest = unit_of (CHR ''-''))"
  unfolding exp_tail_def startsWith_prefix prefix_def by auto

lemma exp_stem_shape:
  "exp_stem name = Some stem \<Longrightarrow>
   \<exists>rest. name = stem @ str ''-exp'' @ rest \<and> (rest = [] \<or> hd rest = unit_of (CHR ''-''))"
proof (induction name arbitrary: stem)
  case Nil
  then show ?case by simp
next
  case (Cons c cs)
  show ?case
  proof (cases "exp_tail (c # cs)")
    case True
    with Cons.prems have "stem = []" by simp
    with exp_tail_shape[OF True] show ?thesis by simp
  next
    case False
    with Cons.prems obtain st where st: "exp_stem cs = Some st" and stem: "stem = c # st"
      by (auto split: if_splits)
    from Cons.IH[OF st] stem show ?thesis by auto
  qed
qed

lemma exp_tail_complete:
  assumes "single_line rest" "rest = [] \<or> hd rest = unit_of (CHR ''-'')"
  shows "exp_tail (str ''-exp'' @ rest)"
proof (cases rest)
  case Nil
  then show ?thesis by (simp add: exp_tail_def)
next
  case (Cons d ds)
  with assms have "d = unit_of (CHR ''-'')" "list_all (\<lambda>c. \<not> is_line_terminator c) ds"
    by (auto simp: single_line_def)
  with Cons show ?thesis by (simp add: exp_tail_def startsWith_def)
qed

lemma exp_stem_complete:
  assumes "single_line (stem @ str ''-exp'' @ rest)" "rest = [] \<or> hd rest = unit_of (CHR ''-'')"
  shows "\<exists>stem'. exp_stem (stem @ str ''-exp'' @ rest) = Some stem' \<and> prefix stem' stem"
  using assms(1)
proof (induction stem)
  case Nil
  then have "single_line rest" by (simp add: single_line_def)
  from exp_tail_complete[OF this assms(2)] show ?case by simp
next
  case (Cons c cs)
  then have sl: "single_line (cs @ str ''-exp'' @ rest)" and c: "\<not> is_line_terminator c"
    by (simp_all add: single_line_def)
  from Cons.IH[OF sl] obtain st where st: "exp_stem (cs @ str ''-exp'' @ rest) = Some st"
    and pre: "prefix st cs" by blast
  show ?case
  proof (cases "exp_tail ((c # cs) @ str ''-exp'' @ rest)")
    case True
    then show ?thesis by simp
  next
    case False
    then show ?thesis using st pre c by simp
  qed
qed

lemma exp_match_Some:
  assumes "total_preorder (localeCompare D)" "exp_match D avail name = Some r"
  shows "exp_spec D avail name r"
proof -
  from assms(2) obtain stem where st: "exp_stem name = Some stem"
    and lm: "last_match (prefix_matches D avail stem) = Some r"
    by (auto simp: exp_match_def split: option.splits)
  from exp_stem_shape[OF st] last_match_prefix_Some[OF assms(1) lm]
  show ?thesis unfolding exp_spec_def by blast
qed

lemma exp_match_complete:
  assumes "single_line name" "exp_spec D avail name x"
  shows "\<exists>r. exp_match D avail name = Some r"
proof -
  from assms(2) obtain stem rest where n: "name = stem @ str ''-exp'' @ rest"
    and r: "rest = [] \<or> hd rest = unit_of (CHR ''-'')" and sm: "smallest_with_prefix D avail stem x"
    unfolding exp_spec_def by blast
  from exp_stem_complete[OF assms(1)[unfolded n] r] n
  obtain st where st: "exp_stem name = Some st" and pre: "prefix st stem" by auto
  from sm have "x \<in> set avail" "prefix st x"
    using pre unfolding smallest_with_prefix_def by (auto intro: prefix_order.trans)
  then have "last_match (prefix_matches D avail st) \<noteq> None"
    unfolding last_match_prefix_None by blast
  then show ?thesis using st by (auto simp: exp_match_def)
qed

lemma prefix_match_Some:
  "total_preorder (localeCompare D) \<Longrightarrow> prefix_match D avail name = Some r \<Longrightarrow>
   smallest_with_prefix D avail name r"
  unfolding prefix_match_def by (rule last_match_prefix_Some)

lemma prefix_match_None:
  "total_preorder (localeCompare D) \<Longrightarrow>
   prefix_match D avail name = None \<longleftrightarrow> \<not> (\<exists>x. smallest_with_prefix D avail name x)"
  unfolding prefix_match_def last_match_prefix_None using no_smallest_iff by blast

lemma exact_match_iff: "exact_match avail name = (if name \<in> set avail then Some name else None)"
  by (simp add: exact_match_def)

lemma smallest_in_avail: "smallest_with_prefix D avail stem r \<Longrightarrow> r \<in> set avail"
  by (simp add: smallest_with_prefix_def)

lemma resolution_spec_in_avail: "resolution_spec D avail name r \<Longrightarrow> r \<in> set avail"
  unfolding resolution_spec_def
  by (auto simp: qualified_entry_def latest_spec_def exp_spec_def smallest_with_prefix_def
      split: if_splits)

lemma resolveModel_sound:
  assumes tp: "total_preorder (localeCompare D)"
    and res: "resolveModel D p avail name = Inr r"
  shows "resolution_spec D avail name r"
proof (cases "exact_match avail name")
  case (Some a)
  with res show ?thesis
    by (auto simp: resolveModel_def resolution_spec_def exact_match_iff split: if_splits)
next
  case n1: None
  then have s1: "name \<notin> set avail" by (simp add: exact_match_iff split: if_splits)
  show ?thesis
  proof (cases "exactMatchWithProvider avail name")
    case (Some a)
    with res n1 have "a = r" by (simp add: resolveModel_def)
    with exactMatchWithProvider_Some[OF Some] s1 show ?thesis
      unfolding resolution_spec_def by auto
  next
    case n2: None
    then have s2: "\<not> (\<exists>x. qualified_entry avail name x)"
      by (simp add: exactMatchWithProvider_None)
    show ?thesis
    proof (cases "prefix_match D avail name")
      case (Some a)
      with res n1 n2 have "a = r" by (simp add: resolveModel_def)
      with prefix_match_Some[OF tp Some] s1 s2 show ?thesis
        unfolding resolution_spec_def by auto
    next
      case n3: None
      then have s3: "\<not> (\<exists>x. smallest_with_prefix D avail name x)"
        by (simp add: prefix_match_None[OF tp])
      show ?thesis
      proof (cases "latest_match D avail name")
        case (Some a)
        with res n1 n2 n3 have "a = r" by (simp add: resolveModel_def)
        with latest_match_Some[OF tp Some] s1 s2 s3 show ?thesis
          unfolding resolution_spec_def by auto
      next
        case n4: None
        then have s4: "\<not> (\<exists>x. latest_spec D avail name x)"
          by (simp add: latest_match_None[OF tp])
        from res n1 n2 n3 n4 have "exp_match D avail name = Some r"
          by (simp add: resolveModel_def split: option.splits)
        from exp_match_Some[OF tp this] s1 s2 s3 s4 show ?thesis
          unfolding resolution_spec_def by auto
      qed
    qed
  qed
qed

lemma exp_tail_single_line: "exp_tail s \<Longrightarrow> single_line s"
proof -
  assume "exp_tail s"
  then consider "s = str ''-exp''"
    | "startsWith s (str ''-exp-'')" "list_all (\<lambda>c. \<not> is_line_terminator c) (drop 5 s)"
    unfolding exp_tail_def by blast
  then show ?thesis
  proof cases
    case 1
    then show ?thesis by (simp add: single_line_def is_line_terminator_def unit_of_def)
  next
    case 2
    have len: "length (str ''-exp-'') = 5" by simp
    from 2(1) have "take (length (str ''-exp-'')) s = str ''-exp-''" by (simp only: startsWith_def)
    then have "take 5 s = str ''-exp-''" unfolding len .
    then have "str ''-exp-'' @ drop 5 s = s" by (metis append_take_drop_id)
    then have "s = str ''-exp-'' @ drop 5 s" by (rule sym)
    then have "single_line s = single_line (str ''-exp-'' @ drop 5 s)" by simp
    also have "\<dots>" using 2(2) by (simp add: single_line_def is_line_terminator_def unit_of_def)
    finally show ?thesis .
  qed
qed

lemma exp_stem_single_line: "exp_stem name = Some stem \<Longrightarrow> single_line name"
proof (induction name arbitrary: stem)
  case Nil
  then show ?case by simp
next
  case (Cons c cs)
  show ?case
  proof (cases "exp_tail (c # cs)")
    case True
    then show ?thesis by (rule exp_tail_single_line)
  next
    case False
    with Cons.prems obtain st where st: "exp_stem cs = Some st" and c: "\<not> is_line_terminator c"
      by (auto split: if_splits)
    from Cons.IH[OF st] c show ?thesis by (simp add: single_line_def)
  qed
qed

lemma exp_match_iff:
  assumes tp: "total_preorder (localeCompare D)"
  shows "exp_match D avail name \<noteq> None
         \<longleftrightarrow> single_line name \<and> (\<exists>x. exp_spec D avail name x)"
proof
  assume "exp_match D avail name \<noteq> None"
  then obtain r where r: "exp_match D avail name = Some r" by blast
  then obtain stem where "exp_stem name = Some stem"
    by (auto simp: exp_match_def split: option.splits)
  then have "single_line name" by (rule exp_stem_single_line)
  with exp_match_Some[OF tp r] show "single_line name \<and> (\<exists>x. exp_spec D avail name x)"
    by blast
next
  assume "single_line name \<and> (\<exists>x. exp_spec D avail name x)"
  then show "exp_match D avail name \<noteq> None"
    using exp_match_complete[of name D avail] by auto
qed

lemma resolveModel_returns_iff:
  assumes tp: "total_preorder (localeCompare D)"
  shows "(\<exists>r. resolveModel D p avail name = Inr r)
         \<longleftrightarrow> name \<in> set avail \<or> (\<exists>x. qualified_entry avail name x)
             \<or> (\<exists>x. smallest_with_prefix D avail name x)
             \<or> (\<exists>x. latest_spec D avail name x)
             \<or> (single_line name \<and> (\<exists>x. exp_spec D avail name x))"
proof -
  have "(\<exists>r. resolveModel D p avail name = Inr r)
        \<longleftrightarrow> exact_match avail name \<noteq> None \<or> exactMatchWithProvider avail name \<noteq> None
            \<or> prefix_match D avail name \<noteq> None \<or> latest_match D avail name \<noteq> None
            \<or> exp_match D avail name \<noteq> None"
    by (auto simp: resolveModel_def split: option.splits)
  also have "exact_match avail name \<noteq> None \<longleftrightarrow> name \<in> set avail"
    by (simp add: exact_match_iff)
  also have "exactMatchWithProvider avail name \<noteq> None \<longleftrightarrow> (\<exists>x. qualified_entry avail name x)"
    by (simp add: exactMatchWithProvider_None)
  also have "prefix_match D avail name \<noteq> None \<longleftrightarrow> (\<exists>x. smallest_with_prefix D avail name x)"
    by (simp add: prefix_match_None[OF tp])
  also have "latest_match D avail name \<noteq> None \<longleftrightarrow> (\<exists>x. latest_spec D avail name x)"
    by (simp add: latest_match_None[OF tp])
  also have "exp_match D avail name \<noteq> None
             \<longleftrightarrow> single_line name \<and> (\<exists>x. exp_spec D avail name x)"
    by (rule exp_match_iff[OF tp])
  finally show ?thesis .
qed



section \<open>Model-name resolution: the claims\<close>

lemma code_unit_compare_refl: "code_unit_compare a a = 0"
  by (induction a) auto

lemma code_unit_compare_total: "code_unit_compare a b \<le> 0 \<or> code_unit_compare b a \<le> 0"
  by (induction a b rule: code_unit_compare.induct) auto

lemma code_unit_compare_trans:
  "code_unit_compare a b \<le> 0 \<Longrightarrow> code_unit_compare b c \<le> 0 \<Longrightarrow> code_unit_compare a c \<le> 0"
proof (induction a b arbitrary: c rule: code_unit_compare.induct)
  case 1
  then show ?case by simp
next
  case (2 b bs)
  then show ?case by (cases c) auto
next
  case (3 a as)
  then show ?case by simp
next
  case (4 a as b bs)
  then show ?case by (cases c) (auto split: if_splits)
qed

lemma total_preorder_sample: "total_preorder (localeCompare sample_deps)"
  unfolding total_preorder_def sample_deps_def
  using code_unit_compare_total code_unit_compare_trans by auto

lemma getModel_resolved:
  assumes "availableModels this = Some (Resolved avail)" "model opts = Some name" "name \<noteq> []"
  shows "getModel D p this (Some opts) = resolveModel D p avail name"
  using assms by (simp add: getModel_def)

text \<open>
  C1 (amended). For a provider whose \<open>availableModels\<close> has settled with a non-empty set
  and a requested name that is not empty, \<open>getModel\<close> tries five stages in order and
  returns what the first matching one gives: the name itself when it is available; for
  a name without \<open>/\<close>, an available entry \<open>prefix/name\<close>; the smallest available model
  (the last one after the descending \<open>localeCompare\<close> sort) that has the name as a
  prefix; for a name ending in \<open>-latest\<close>, the smallest available model that has the
  name without that suffix as a prefix; for a name with an \<open>-exp\<close> or \<open>-exp-...\<close> suffix
  and no line terminator (LF, CR, U+2028, U+2029) in it, the smallest available model
  that has the name without such a suffix as a prefix. Whatever \<open>getModel\<close> returns is the result of the first
  matching stage and is available; and \<open>getModel\<close> returns exactly when one of the
  first four stages matches, or the fifth does and the name holds no line terminator.
\<close>

theorem getModel_resolves_by_stages:
  assumes tp: "total_preorder (localeCompare D)"
    and av: "availableModels this = Some (Resolved avail)" "avail \<noteq> []"
    and nm: "model opts = Some name" "name \<noteq> []"
  shows "(\<forall>r. getModel D p this (Some opts) = Inr r
            \<longrightarrow> resolution_spec D avail name r \<and> r \<in> set avail)
       \<and> ((\<exists>r. getModel D p this (Some opts) = Inr r)
            \<longleftrightarrow> name \<in> set avail \<or> (\<exists>x. qualified_entry avail name x)
                \<or> (\<exists>x. smallest_with_prefix D avail name x)
                \<or> (\<exists>x. latest_spec D avail name x)
                \<or> (single_line name \<and> (\<exists>x. exp_spec D avail name x)))"
proof -
  have g: "getModel D p this (Some opts) = resolveModel D p avail name"
    using av(1) nm by (rule getModel_resolved)
  have "\<forall>r. resolveModel D p avail name = Inr r
            \<longrightarrow> resolution_spec D avail name r \<and> r \<in> set avail"
    using resolveModel_sound[OF tp] resolution_spec_in_avail by blast
  then show ?thesis
    unfolding g using resolveModel_returns_iff[OF tp, of p avail name] by blast
qed

theorem getModel_resolves_by_stages_witness:
  "getModel sample_deps GoogleGenerativeLanguage
     (sample_provider [str ''gemini-2.0-pro'', str ''gemini-2.0-flash''])
     (Some (sample_options (Some (str ''gemini-2.0'')) None)) = Inr (str ''gemini-2.0-flash'')
   \<and> resolution_spec sample_deps [str ''gemini-2.0-pro'', str ''gemini-2.0-flash''] (str ''gemini-2.0'')
       (str ''gemini-2.0-flash'')"
proof -
  let ?avail = "[str ''gemini-2.0-pro'', str ''gemini-2.0-flash'']"
  have run: "getModel sample_deps GoogleGenerativeLanguage (sample_provider ?avail)
               (Some (sample_options (Some (str ''gemini-2.0'')) None)) = Inr (str ''gemini-2.0-flash'')"
    by code_simp
  have "availableModels (sample_provider ?avail) = Some (Resolved ?avail)"
    by (simp add: sample_provider_def)
  moreover have "model (sample_options (Some (str ''gemini-2.0'')) None) = Some (str ''gemini-2.0'')"
    by (simp add: sample_options_def)
  ultimately show ?thesis
    using getModel_resolves_by_stages[OF total_preorder_sample, of "sample_provider ?avail"
        ?avail "sample_options (Some (str ''gemini-2.0'')) None" "str ''gemini-2.0''"
        GoogleGenerativeLanguage] run
    by simp
qed

text \<open>
  The fifth stage is not reached by a name with a line break in it: the \<open>.\<close> of the
  regular expression does not match a line terminator. Here the name
  \<open>gemini-exp-1\<close> followed by a line feed has the suffix \<open>-exp-...\<close> and
  \<open>gemini-pro\<close> is the smallest available model starting with \<open>gemini\<close>, yet
  \<open>getModel\<close> throws.
\<close>

theorem getModel_exp_suffix_line_break:
  "resolution_spec sample_deps [str ''gemini-pro''] (str ''gemini-exp-1'' @ nl) (str ''gemini-pro'')
   \<and> getModel sample_deps GoogleGenerativeLanguage (sample_provider [str ''gemini-pro''])
       (Some (sample_options (Some (str ''gemini-exp-1'' @ nl)) None))
     = Inl (new_error sample_deps ModelNotFoundError
         (not_found_text sample_deps GoogleGenerativeLanguage [str ''gemini-pro'']
            (str ''gemini-exp-1'' @ nl)))"
proof -
  let ?avail = "[str ''gemini-pro'']" and ?name = "str ''gemini-exp-1'' @ nl"
  note tp = total_preorder_sample
  have s2: "\<not> (\<exists>x. qualified_entry ?avail ?name x)"
    unfolding exactMatchWithProvider_None[symmetric] by code_simp
  have s3: "\<not> (\<exists>x. smallest_with_prefix sample_deps ?avail ?name x)"
    unfolding prefix_match_None[OF tp, symmetric] by code_simp
  have s4: "\<not> (\<exists>x. latest_spec sample_deps ?avail ?name x)"
    unfolding latest_match_None[OF tp, symmetric] by code_simp
  have sm: "smallest_with_prefix sample_deps ?avail (str ''gemini'') (str ''gemini-pro'')"
    by (simp add: smallest_with_prefix_def sample_deps_def)
  have "?name = str ''gemini'' @ str ''-exp'' @ (str ''-1'' @ nl)" by (simp add: nl_def)
  moreover have "hd (str ''-1'' @ nl) = unit_of (CHR ''-'')" by simp
  ultimately have s5: "exp_spec sample_deps ?avail ?name (str ''gemini-pro'')"
    unfolding exp_spec_def using sm by blast
  have "?name \<notin> set ?avail" by (simp add: nl_def)
  with s2 s3 s4 s5 have spec: "resolution_spec sample_deps ?avail ?name (str ''gemini-pro'')"
    unfolding resolution_spec_def by simp
  have "getModel sample_deps GoogleGenerativeLanguage (sample_provider ?avail)
          (Some (sample_options (Some ?name) None))
        = resolveModel sample_deps GoogleGenerativeLanguage ?avail ?name"
    by (rule getModel_resolved) (simp_all add: sample_provider_def sample_options_def)
  moreover have "exact_match ?avail ?name = None" "exactMatchWithProvider ?avail ?name = None"
    "prefix_match sample_deps ?avail ?name = None" "latest_match sample_deps ?avail ?name = None"
    "exp_match sample_deps ?avail ?name = None"
    by code_simp+
  ultimately show ?thesis using spec by (simp add: resolveModel_def)
qed

text \<open>
  The same name with the line separator U+2028 in the place of the line feed is not
  resolved either, and without a line terminator it is.
\<close>

lemma getModel_exp_suffix_line_separator:
  "getModel sample_deps GoogleGenerativeLanguage (sample_provider [str ''gemini-pro''])
     (Some (sample_options (Some (str ''gemini-exp-1'' @ [0x2028])) None))
   = Inl (new_error sample_deps ModelNotFoundError
       (not_found_text sample_deps GoogleGenerativeLanguage [str ''gemini-pro'']
          (str ''gemini-exp-1'' @ [0x2028])))
   \<and> getModel sample_deps GoogleGenerativeLanguage (sample_provider [str ''gemini-pro''])
       (Some (sample_options (Some (str ''gemini-exp-1'')) None))
     = Inr (str ''gemini-pro'')"
  by code_simp






section \<open>\<open>retryWithBackoff\<close>: proofs\<close>

declare retry_loop.simps [simp del]

lemma retry_loop_Inr:
  "operation invoked = Inr v \<Longrightarrow>
   retry_loop operation maxAttempts baseDelay shouldRetry attempt invoked waited
   = \<lparr>outcome = Inr v, invocations = Suc invoked, delays = waited\<rparr>"
  by (simp add: retry_loop.simps)

lemma retry_loop_stop:
  "operation invoked = Inl e \<Longrightarrow> attempt \<ge> maxAttempts \<or> \<not> shouldRetry e \<Longrightarrow>
   retry_loop operation maxAttempts baseDelay shouldRetry attempt invoked waited
   = \<lparr>outcome = Inl e, invocations = Suc invoked, delays = waited\<rparr>"
  by (simp add: retry_loop.simps)

lemma retry_loop_again:
  "operation invoked = Inl e \<Longrightarrow> attempt < maxAttempts \<Longrightarrow> shouldRetry e \<Longrightarrow>
   retry_loop operation maxAttempts baseDelay shouldRetry attempt invoked waited
   = retry_loop operation maxAttempts baseDelay shouldRetry (attempt + 1) (Suc invoked)
       (waited @ [baseDelay * 2 ^ (attempt - 1)])"
  by (simp add: retry_loop.simps)

lemma retry_loop_cases:
  fixes operation :: "nat \<Rightarrow> js_error + 'a" and maxAttempts attempt :: nat
  obtains (returned) v where "operation invoked = Inr v"
  | (stopped) e where "operation invoked = Inl e" "attempt \<ge> maxAttempts \<or> \<not> shouldRetry e"
  | (again) e where "operation invoked = Inl e" "attempt < maxAttempts" "shouldRetry e"
proof (cases "operation invoked")
  case (Inl e)
  then show thesis
    using stopped again by (cases "attempt \<ge> maxAttempts \<or> \<not> shouldRetry e") auto
next
  case (Inr v)
  then show thesis using returned by blast
qed

lemma retry_loop_invocations_gt:
  "invoked < invocations (retry_loop operation maxAttempts baseDelay shouldRetry attempt invoked waited)"
proof (induction operation maxAttempts baseDelay shouldRetry attempt invoked waited
    rule: retry_loop.induct)
  case (1 operation maxAttempts baseDelay shouldRetry attempt invoked waited)
  show ?case
  proof (cases rule: retry_loop_cases[where operation=operation and invoked=invoked and maxAttempts=maxAttempts and attempt=attempt and shouldRetry=shouldRetry])
    case (returned v)
    then show ?thesis by (simp add: retry_loop_Inr)
  next
    case (stopped e)
    then show ?thesis by (simp add: retry_loop_stop)
  next
    case (again e)
    with "1.IH"[of e] show ?thesis by (simp add: retry_loop_again)
  qed
qed

lemma retry_loop_outcome:
  "outcome (retry_loop operation maxAttempts baseDelay shouldRetry attempt invoked waited)
   = operation (invocations (retry_loop operation maxAttempts baseDelay shouldRetry attempt
       invoked waited) - 1)"
proof (induction operation maxAttempts baseDelay shouldRetry attempt invoked waited
    rule: retry_loop.induct)
  case (1 operation maxAttempts baseDelay shouldRetry attempt invoked waited)
  show ?case
  proof (cases rule: retry_loop_cases[where operation=operation and invoked=invoked and maxAttempts=maxAttempts and attempt=attempt and shouldRetry=shouldRetry])
    case (returned v)
    then show ?thesis by (simp add: retry_loop_Inr)
  next
    case (stopped e)
    then show ?thesis by (simp add: retry_loop_stop)
  next
    case (again e)
    with "1.IH"[of e] show ?thesis by (simp add: retry_loop_again)
  qed
qed




lemma retry_loop_delays:
  "1 \<le> attempt \<Longrightarrow>
   delays (retry_loop operation maxAttempts baseDelay shouldRetry attempt invoked waited)
   = waited @ map (\<lambda>j. baseDelay * 2 ^ (attempt - 1 + j))
       [0..<invocations (retry_loop operation maxAttempts baseDelay shouldRetry attempt invoked
              waited) - invoked - 1]"
proof (induction operation maxAttempts baseDelay shouldRetry attempt invoked waited
    rule: retry_loop.induct)
  case (1 operation maxAttempts baseDelay shouldRetry attempt invoked waited)
  show ?case
  proof (cases rule: retry_loop_cases[where operation=operation and invoked=invoked and maxAttempts=maxAttempts and attempt=attempt and shouldRetry=shouldRetry])
    case (returned v)
    then show ?thesis by (simp add: retry_loop_Inr)
  next
    case (stopped e)
    then show ?thesis by (simp add: retry_loop_stop)
  next
    case (again e)
    let ?R = "retry_loop operation maxAttempts baseDelay shouldRetry (attempt + 1) (Suc invoked)
       (waited @ [baseDelay * 2 ^ (attempt - 1)])"
    let ?f = "\<lambda>j. baseDelay * 2 ^ (attempt - 1 + j)"
    have step: "retry_loop operation maxAttempts baseDelay shouldRetry attempt invoked waited = ?R"
      using again by (rule retry_loop_again)
    have gt: "Suc invoked < invocations ?R" by (rule retry_loop_invocations_gt)
    define m where "m = invocations ?R - Suc invoked - 1"
    have cnt: "invocations ?R - invoked - 1 = Suc m" using gt by (simp add: m_def)
    have ih: "delays ?R = (waited @ [baseDelay * 2 ^ (attempt - 1)])
                @ map (\<lambda>j. baseDelay * 2 ^ (attempt + 1 - 1 + j)) [0..<m]"
      unfolding m_def using "1.IH"[OF again(1)] again(2,3) by simp
    have shift: "(\<lambda>j. baseDelay * 2 ^ (attempt + 1 - 1 + j)) = (\<lambda>j. ?f (Suc j))"
      using "1.prems" by (intro ext) simp
    have "map ?f [0..<Suc m] = ?f 0 # map (\<lambda>j. ?f (Suc j)) [0..<m]"
      by (rule map_upt_Suc)
    then have "waited @ map ?f [0..<Suc m] = delays ?R"
      unfolding ih shift by simp
    then show ?thesis unfolding step cnt by simp
  qed
qed

section \<open>\<open>retryWithBackoff\<close>: the claims\<close>

text \<open>
  C3 (amended). The retries are made by the loop of \<open>retryWithBackoff\<close>, and the
  waiting time before each successive retry doubles: it is the base delay before the
  first retry and \<open>baseDelay * 2 ^ k\<close> before retry number \<open>k + 1\<close>, one delay for each
  invocation but the last.
\<close>

theorem retry_delays_double:
  "delays (retryWithBackoff operation maxAttempts baseDelay shouldRetry)
   = map (\<lambda>k. baseDelay * 2 ^ k)
       [0..<invocations (retryWithBackoff operation maxAttempts baseDelay shouldRetry) - 1]"
  unfolding retryWithBackoff_def
  using retry_loop_delays[of 1 operation maxAttempts baseDelay shouldRetry 0 "[]"] by simp

lemma always_busy_delays:
  "delays (retryWithBackoff_default always_busy) = [1000, 2000, 4000, 8000]"
  by code_simp

text \<open>
  The delays do not grow linearly: five attempts that all meet a 429 wait 1000, 2000,
  4000 and 8000 milliseconds.
\<close>

theorem retry_delays_not_linear:
  "\<not> grows_linearly 1000 (delays (retryWithBackoff_default always_busy))"
proof
  assume "grows_linearly 1000 (delays (retryWithBackoff_default always_busy))"
  then obtain step :: int
    where st: "\<forall>k<length [1000, 2000, 4000, 8000 :: nat].
                 int ([1000, 2000, 4000, 8000] ! k) = int 1000 + step * int k"
    unfolding grows_linearly_def always_busy_delays by blast
  from st[rule_format, of 1] have "step = 1000" by simp
  moreover from st[rule_format, of 2] have "2 * step = 3000" by simp
  ultimately show False by simp
qed



section \<open>Grounded answers: proofs\<close>

declare show_nat.simps [simp del]































section \<open>Grounded answers: the claim\<close>

lemma google_operation_Inr:
  assumes "google_operation D api response = Inr body"
  shows "body \<noteq> [] \<and> (\<exists>data raw. response = HttpOk data \<and> candidate_text data = Inr raw
            \<and> formattedContent raw (candidate_grounding data) = Inr (Some body))"
  using assms
  by (auto simp: google_operation_def google_try_def
      split: sum.splits google_response.splits option.splits if_splits)

lemma google_call_result:
  assumes "result (google_call D api vendor req this h) = Inr body"
  shows "\<exists>k. google_operation D api (vendor k req) = Inr body"
proof -
  let ?op = "\<lambda>k. google_operation D api (vendor k req)"
  have "outcome (retryWithBackoff ?op 5 1000 (google_shouldRetry D)) = Inr body"
    using assms by (simp add: google_call_def Let_def)
  then show ?thesis
    unfolding retryWithBackoff_def
    using retry_loop_outcome[of ?op 5 1000 "google_shouldRetry D" 1 0 "[]"] by metis
qed

lemma google_call_first:
  assumes "google_operation D api (vendor 0 req) = Inr body"
  shows "result (google_call D api vendor req this h) = Inr body"
  using assms
  by (simp add: google_call_def Let_def retryWithBackoff_def retry_loop_Inr)

lemma thrown_result: "result (thrown this h e) = Inl e"
  by (simp add: thrown_def)

lemma executePrompt_google_result:
  assumes "is_google p" "result (executePrompt D W p this h options prompt) = Inr body"
  shows "\<exists>api req h'. result (google_call D api (google_api W) req this h') = Inr body"
proof -
  from assms(1) consider "p = GoogleVertexAI" | "p = GoogleGenerativeLanguage"
    by (auto simp: is_google_def)
  then show ?thesis
  proof cases
    case 1
    with assms(2) show ?thesis
      by (auto simp: executePrompt_Vertex_def thrown_result
          split: sum.splits option.splits promise.splits prod.splits if_splits)
  next
    case 2
    with assms(2) show ?thesis
      by (auto simp: executePrompt_GenerativeLanguage_def thrown_result
          split: sum.splits option.splits promise.splits prod.splits if_splits)
  qed
qed












text \<open>
  A grounded answer with a support that has no \<open>groundingChunkIndices\<close>: the
  \<open>TypeError\<close> of \<open>support.groundingChunkIndices.map\<close> is caught and
  \<open>executePrompt\<close> rejects with a \<open>NetworkError\<close>, after one request on this host.
\<close>

lemma google_unreadable_support:
  "executePrompt sample_deps (grounded_world unreadable_grounding) GoogleVertexAI
     (sample_provider [str ''gemini-pro'']) [sample_options (Some (str ''gemini-pro'')) None]
     (Some 0) (str ''question'')
   = \<lparr>result = Inl (JsError NetworkError
                  (str ''Failed to communicate with Google Vertex AI API'')),
      this_after = sample_provider [str ''gemini-pro''],
      store_after = [sample_options (Some (str ''gemini-pro'')) None],
      requests = [make_request (str ''gemini-pro'')
                    (sample_options (Some (str ''gemini-pro'')) None) (str ''question'') False]\<rparr>"
  by code_simp

section \<open>\<open>executePrompt\<close>: the claims\<close>

text \<open>
  The token block and the requests. The Vertex AI provider sends every request for the
  model resolved from the caller's options, whatever the token count; the Generative
  Language provider, for a count between 800000 and 2000000, sends them for what
  \<open>gemini-2.0-pro-exp\<close> resolves to; a count of 2000000 or more ends either provider with
  a \<open>ProviderError\<close> and no request.
\<close>

lemma thrown_requests: "requests (thrown this h e) = []"
  by (simp add: thrown_def)

lemma google_call_requests:
  "r \<in> set (requests (google_call D api vendor req this h)) \<Longrightarrow> r = req"
  by (simp add: google_call_def Let_def)

lemma vertex_requests_keep_model:
  assumes "r \<in> set (requests (executePrompt_Vertex D vendor this h options prompt))"
  shows "getModel D GoogleVertexAI this (deref h options) = Inr (req_model r)"
  using assms
  by (auto simp: executePrompt_Vertex_def thrown_requests make_request_def
      dest!: google_call_requests
      split: sum.splits option.splits promise.splits prod.splits if_splits)

lemma token_switch_middle:
  assumes "deref h options = Some opts" "tokenCount opts = Some t" "800000 < t" "t < 2000000"
    and "p = GoogleVertexAI \<or> p = GoogleGenerativeLanguage"
  shows "token_switch D p h options
         = Inr (h @ [opts\<lparr>model := Some (if p = GoogleVertexAI then str ''gemini-2.0-pro-exp-02-05''
                                         else str ''gemini-2.0-pro-exp'')\<rparr>], Some (length h))"
  using assms
  by (auto simp: token_switch_def handleLargeTokenCount_def Let_def truthy_def)

lemma token_switch_large:
  assumes "deref h options = Some opts" "tokenCount opts = Some t" "2000000 \<le> t"
    and "p = GoogleVertexAI \<or> p = GoogleGenerativeLanguage"
  shows "token_switch D p h options = Inl (new_error D ProviderError too_large_text)"
  using assms
  by (auto simp: token_switch_def handleLargeTokenCount_def Let_def truthy_def
      too_large_text_def)

lemma generative_requests_switched:
  assumes "deref h options = Some opts" "tokenCount opts = Some t" "800000 < t" "t < 2000000"
    and "r \<in> set (requests (executePrompt_GenerativeLanguage D vendor this h options prompt))"
  shows "getModel D GoogleGenerativeLanguage this
           (Some (opts\<lparr>model := Some (str ''gemini-2.0-pro-exp'')\<rparr>)) = Inr (req_model r)"
proof -
  have sw: "token_switch D GoogleGenerativeLanguage h options
        = Inr (h @ [opts\<lparr>model := Some (str ''gemini-2.0-pro-exp'')\<rparr>], Some (length h))"
    using token_switch_middle[OF assms(1-4), of GoogleGenerativeLanguage D] by simp
  have d: "deref (h @ [opts\<lparr>model := Some (str ''gemini-2.0-pro-exp'')\<rparr>]) (Some (length h))
           = Some (opts\<lparr>model := Some (str ''gemini-2.0-pro-exp'')\<rparr>)"
    by (simp add: deref_def)
  from assms(5) d show ?thesis
    unfolding executePrompt_GenerativeLanguage_def sw
    by (auto simp: thrown_requests make_request_def dest!: google_call_requests
        split: sum.splits)
qed

lemma generative_too_large:
  assumes "deref h options = Some opts" "tokenCount opts = Some t" "2000000 \<le> t"
  shows "result (executePrompt_GenerativeLanguage D vendor this h options prompt)
           = Inl (new_error D ProviderError too_large_text)
         \<and> requests (executePrompt_GenerativeLanguage D vendor this h options prompt) = []"
  using token_switch_large[OF assms, of GoogleGenerativeLanguage D]
  by (simp add: executePrompt_GenerativeLanguage_def thrown_def)

lemma vertex_too_large:
  assumes "deref h options = Some opts" "tokenCount opts = Some t" "2000000 \<le> t"
    and "getModel D GoogleVertexAI this (deref h options) = Inr name"
  shows "result (executePrompt_Vertex D vendor this h options prompt)
           = Inl (new_error D ProviderError too_large_text)
         \<and> requests (executePrompt_Vertex D vendor this h options prompt) = []"
  using token_switch_large[OF assms(1-3), of GoogleVertexAI D] assms(4)
  by (simp add: executePrompt_Vertex_def thrown_def)

text \<open>
  C2, where the code departs from it. With a token count of 900000 the Vertex AI
  provider still sends its request for the model the caller named,
  \<open>gemini-2.0-flash\<close>: the model was resolved before the token block ran and the copy of
  the options with \<open>gemini-2.0-pro-exp-02-05\<close> is not read again. The Generative
  Language provider, which runs the token block first, sends it for
  \<open>gemini-2.0-pro-exp\<close>.
\<close>

theorem vertex_token_switch_not_sent:
  "map req_model (requests (executePrompt sample_deps sample_world GoogleVertexAI
       (sample_provider [str ''gemini-2.0-flash'', str ''gemini-2.0-pro-exp-02-05''])
       [sample_options (Some (str ''gemini-2.0-flash'')) (Some 900000)] (Some 0) (str ''question'')))
     = [str ''gemini-2.0-flash'']
   \<and> map req_model (requests (executePrompt sample_deps sample_world GoogleGenerativeLanguage
       (sample_provider [str ''gemini-2.0-flash'', str ''gemini-2.0-pro-exp''])
       [sample_options (Some (str ''gemini-2.0-flash'')) (Some 900000)] (Some 0) (str ''question'')))
     = [str ''gemini-2.0-pro-exp'']"
  by code_simp

lemma token_switch_store:
  assumes "token_switch D p h options = Inr (h1, options1)"
  shows "h1 = h \<or> (\<exists>opts m. deref h options = Some opts \<and> h1 = h @ [opts\<lparr>model := Some m\<rparr>])"
  using assms
  by (auto simp: token_switch_def Let_def truthy_def split: option.splits if_splits)

lemma thrown_frame: "this_after (thrown this h e) = this" "store_after (thrown this h e) = h"
  by (simp_all add: thrown_def)

lemma google_call_frame:
  "this_after (google_call D api vendor req this h) = this"
  "store_after (google_call D api vendor req this h) = h"
  by (simp_all add: google_call_def Let_def)

lemma vertex_frame:
  "this_after (executePrompt_Vertex D vendor this h options prompt) = this
   \<and> fresh_copy h options (store_after (executePrompt_Vertex D vendor this h options prompt))"
proof (cases "token_switch D GoogleVertexAI h options")
  case (Inl e)
  then show ?thesis
    by (simp add: executePrompt_Vertex_def thrown_frame fresh_copy_def split: sum.splits)
next
  case (Inr pair)
  obtain h1 options1 where pair: "pair = (h1, options1)" by (cases pair)
  from token_switch_store[OF Inr[unfolded pair]] have "fresh_copy h options h1"
    by (simp add: fresh_copy_def)
  moreover have "fresh_copy h options h" by (simp add: fresh_copy_def)
  ultimately show ?thesis
    using Inr pair
    by (simp add: executePrompt_Vertex_def thrown_frame google_call_frame
        split: sum.splits option.splits promise.splits)
qed

lemma generative_frame:
  "this_after (executePrompt_GenerativeLanguage D vendor this h options prompt) = this
   \<and> fresh_copy h options
       (store_after (executePrompt_GenerativeLanguage D vendor this h options prompt))"
proof (cases "token_switch D GoogleGenerativeLanguage h options")
  case (Inl e)
  then show ?thesis
    by (simp add: executePrompt_GenerativeLanguage_def thrown_frame fresh_copy_def)
next
  case (Inr pair)
  obtain h1 options1 where pair: "pair = (h1, options1)" by (cases pair)
  from token_switch_store[OF Inr[unfolded pair]] have "fresh_copy h options h1"
    by (simp add: fresh_copy_def)
  then show ?thesis
    using Inr pair
    by (simp add: executePrompt_GenerativeLanguage_def thrown_frame google_call_frame
        split: sum.splits option.splits)
qed

lemma others_frame:
  "this_after (executePrompt_OpenAI D v this h options prompt) = this"
  "store_after (executePrompt_OpenAI D v this h options prompt) = h"
  "this_after (executePrompt_OpenRouter D v this h options prompt) = this"
  "store_after (executePrompt_OpenRouter D v this h options prompt) = h"
  "this_after (executePrompt_ModelBox D v this h options prompt) = this"
  "store_after (executePrompt_ModelBox D v this h options prompt) = h"
  "this_after (executePrompt_Perplexity D key vp this h options prompt) = this"
  "store_after (executePrompt_Perplexity D key vp this h options prompt) = h"
  "this_after (executePrompt_Anthropic D va this h options prompt) = this"
  "store_after (executePrompt_Anthropic D va this h options prompt) = h"
  "this_after (executePrompt_OpenAIBase D p v this h options prompt) = this"
  "store_after (executePrompt_OpenAIBase D p v this h options prompt) = h"
  by (simp_all add: executePrompt_OpenAI_def executePrompt_OpenRouter_def
      executePrompt_ModelBox_def executePrompt_Perplexity_def executePrompt_Anthropic_def
      executePrompt_OpenAIBase_def thrown_frame Let_def split: sum.splits option.splits)

text \<open>
  C7. \<open>executePrompt\<close> of any provider leaves the fields \<open>config\<close> and
  \<open>availableModels\<close> as they were, and every object that was in the store before the
  call, the caller's options among them, is unchanged after it. The two Google
  providers add at most one object, a fresh copy of the options with the model
  replaced; the other providers add none.
\<close>

theorem executePrompt_frame:
  "this_after (executePrompt D W p this h options prompt) = this
   \<and> take (length h) (store_after (executePrompt D W p this h options prompt)) = h
   \<and> fresh_copy h options (store_after (executePrompt D W p this h options prompt))
   \<and> (\<not> is_google p \<longrightarrow> store_after (executePrompt D W p this h options prompt) = h)"
proof -
  have fc: "fresh_copy h options h1 \<Longrightarrow> take (length h) h1 = h" for h1
    by (auto simp: fresh_copy_def)
  have same: "fresh_copy h options h" by (simp add: fresh_copy_def)
  show ?thesis
    using vertex_frame[of D "google_api W" this h options prompt]
      generative_frame[of D "google_api W" this h options prompt] fc same
    by (cases p) (simp_all add: others_frame is_google_def)
qed

theorem executePrompt_frame_witness:
  "this_after (executePrompt sample_deps sample_world GoogleGenerativeLanguage
       (sample_provider [str ''gemini-2.0-pro-exp''])
       [sample_options (Some (str ''gemini-2.0-flash'')) (Some 900000)] (Some 0) (str ''question''))
     = sample_provider [str ''gemini-2.0-pro-exp'']
   \<and> store_after (executePrompt sample_deps sample_world GoogleGenerativeLanguage
       (sample_provider [str ''gemini-2.0-pro-exp''])
       [sample_options (Some (str ''gemini-2.0-flash'')) (Some 900000)] (Some 0) (str ''question''))
     = [sample_options (Some (str ''gemini-2.0-flash'')) (Some 900000),
        sample_options (Some (str ''gemini-2.0-pro-exp'')) (Some 900000)]
   \<and> \<not> is_google Anthropic
   \<and> store_after (executePrompt sample_deps sample_world Anthropic plain_provider
       [sample_options (Some (str ''claude-3-5-sonnet'')) None] (Some 0) (str ''question''))
     = [sample_options (Some (str ''claude-3-5-sonnet'')) None]"
proof -
  have g: "\<not> is_google Anthropic" by (simp add: is_google_def)
  have s: "store_after (executePrompt sample_deps sample_world GoogleGenerativeLanguage
       (sample_provider [str ''gemini-2.0-pro-exp''])
       [sample_options (Some (str ''gemini-2.0-flash'')) (Some 900000)] (Some 0) (str ''question''))
     = [sample_options (Some (str ''gemini-2.0-flash'')) (Some 900000),
        sample_options (Some (str ''gemini-2.0-pro-exp'')) (Some 900000)]"
    by code_simp
  show ?thesis
    using executePrompt_frame[of sample_deps sample_world GoogleGenerativeLanguage
        "sample_provider [str ''gemini-2.0-pro-exp'']"
        "[sample_options (Some (str ''gemini-2.0-flash'')) (Some 900000)]" "Some 0" "str ''question''"]
      executePrompt_frame[of sample_deps sample_world Anthropic plain_provider
        "[sample_options (Some (str ''claude-3-5-sonnet'')) None]" "Some 0" "str ''question''"] g s
    by simp
qed

lemma perplexity_operation_nonempty:
  "perplexity_operation D vendor this options prompt k \<noteq> Inr []"
  by (auto simp: perplexity_operation_def perplexity_try_def truthy_def
      split: sum.splits option.splits perplexity_response.splits list.splits if_splits)

lemma first_content_answer:
  "(case first_content response of
      Inl e \<Rightarrow> Inl e
    | Inr c \<Rightarrow> if truthy c then Inr (case c of Some s \<Rightarrow> s | None \<Rightarrow> []) else Inl e')
   \<noteq> Inr []"
  by (auto simp: truthy_def split: sum.splits option.splits)

lemma google_never_empty:
  assumes "is_google p"
  shows "result (executePrompt D W p this h options prompt) \<noteq> Inr []"
proof
  assume "result (executePrompt D W p this h options prompt) = Inr []"
  from executePrompt_google_result[OF assms this] obtain api req h' where
    "result (google_call D api (google_api W) req this h') = Inr []" by blast
  from google_call_result[OF this] obtain k where
    "google_operation D api (google_api W k req) = Inr []" by blast
  from google_operation_Inr[OF this] show False by simp
qed

lemma never_empty_elsewhere:
  assumes "p \<noteq> Anthropic"
  shows "result (executePrompt D W p this h options prompt) \<noteq> Inr []"
proof (cases p)
  case GoogleVertexAI
  then have "is_google p" by (simp add: is_google_def)
  then show ?thesis by (rule google_never_empty)
next
  case GoogleGenerativeLanguage
  then have "is_google p" by (simp add: is_google_def)
  then show ?thesis by (rule google_never_empty)
next
  case OpenAI
  then show ?thesis
    by (auto simp: executePrompt_OpenAI_def thrown_def Let_def
        split: sum.splits option.splits if_splits)
next
  case OpenRouter
  then show ?thesis
    using first_content_answer
    by (auto simp: executePrompt_OpenRouter_def thrown_def Let_def truthy_def
        split: sum.splits option.splits if_splits)
next
  case Perplexity
  let ?op = "perplexity_operation D (perplexity_api W) this (deref h options) prompt"
  have "outcome (retryWithBackoff ?op 5 1000 (perplexity_shouldRetry D)) \<noteq> Inr []"
    unfolding retryWithBackoff_def
    using retry_loop_outcome[of ?op 5 1000 "perplexity_shouldRetry D" 1 0 "[]"]
      perplexity_operation_nonempty
    by metis
  with Perplexity show ?thesis
    by (simp add: executePrompt_Perplexity_def thrown_def Let_def)
next
  case ModelBox
  then show ?thesis
    by (auto simp: executePrompt_ModelBox_def executeWithModel_def thrown_def Let_def truthy_def
        split: sum.splits option.splits if_splits)
next
  case Anthropic
  with assms show ?thesis by simp
qed

text \<open>
  C8, where the code departs from it. When the answer of Anthropic is one text block
  whose text is empty, \<open>executePrompt\<close> resolves to the empty string; every other
  provider throws instead (\<open>never_empty_elsewhere\<close>).
\<close>

theorem anthropic_returns_empty_text:
  "result (executePrompt sample_deps sample_world Anthropic plain_provider
       [sample_options (Some (str ''claude-3-5-sonnet'')) None] (Some 0) (str ''question'')) = Inr []"
  by code_simp

lemma getModel_no_model:
  "no_model options \<Longrightarrow>
   getModel D p this options = Inl (new_error D ModelNotFoundError (provider_label p))"
  by (auto simp: no_model_def getModel_def truthy_def split: option.splits)

lemma constructor_name_label: "constructor_name p = provider_label p @ str ''Provider''"
  by (cases p) (simp_all add: provider_label_def startsWith_def)

lemma token_switch_small:
  assumes "case deref h r of None \<Rightarrow> True
           | Some opts \<Rightarrow> (case tokenCount opts of None \<Rightarrow> True | Some t \<Rightarrow> t \<le> 800000)"
  shows "token_switch D p h r = Inr (h, r)"
  using assms
  by (auto simp: token_switch_def handleLargeTokenCount_def Let_def truthy_def
      split: option.splits)

lemma retry_always_failing:
  assumes "\<And>k. operation k = Inl e"
  shows "outcome (retryWithBackoff operation maxAttempts baseDelay shouldRetry) = Inl e"
  unfolding retryWithBackoff_def
  using retry_loop_outcome[of operation maxAttempts baseDelay shouldRetry 1 0 "[]"] assms
  by simp

lemma executePrompt_no_model:
  assumes nm: "no_model (deref h r)" and reach: "reaches_getModel W p (deref h r)"
  shows "result (executePrompt D W p this h r prompt)
         = Inl (new_error D ModelNotFoundError (provider_label p))"
proof (cases p)
  case GoogleVertexAI
  then show ?thesis
    by (simp add: executePrompt_Vertex_def getModel_no_model[OF nm] thrown_def)
next
  case GoogleGenerativeLanguage
  with reach have "token_switch D GoogleGenerativeLanguage h r = Inr (h, r)"
    by (intro token_switch_small) (simp add: reaches_getModel_def)
  with GoogleGenerativeLanguage show ?thesis
    by (simp add: executePrompt_GenerativeLanguage_def getModel_no_model[OF nm] thrown_def)
next
  case OpenAI
  then show ?thesis
    by (simp add: executePrompt_OpenAI_def getModel_no_model[OF nm] thrown_def)
next
  case OpenRouter
  then show ?thesis
    by (simp add: executePrompt_OpenRouter_def getModel_no_model[OF nm] thrown_def)
next
  case Perplexity
  with reach have key: "truthy (PERPLEXITY_API_KEY W)" by (simp add: reaches_getModel_def)
  have "\<And>k. perplexity_operation D (perplexity_api W) this (deref h r) prompt k
            = Inl (new_error D ModelNotFoundError (provider_label Perplexity))"
    by (simp add: perplexity_operation_def getModel_no_model[OF nm])
  from retry_always_failing[OF this] Perplexity key show ?thesis
    by (simp add: executePrompt_Perplexity_def Let_def)
next
  case ModelBox
  then show ?thesis
    by (simp add: executePrompt_ModelBox_def getModel_no_model[OF nm] thrown_def)
next
  case Anthropic
  then show ?thesis
    by (simp add: executePrompt_Anthropic_def getModel_no_model[OF nm] thrown_def)
qed

text \<open>
  C9 (amended). For every provider, \<open>getModel\<close> called with \<open>options\<close> undefined, or
  with \<open>options.model\<close> absent or empty, throws a \<open>ModelNotFoundError\<close> made from the
  name of the provider, which is the constructor name without its \<open>Provider\<close> suffix.
  \<open>executePrompt\<close> then fails with that error whenever it reaches \<open>getModel\<close> with the
  options it was given: always for Vertex AI, OpenAI, OpenRouter, ModelBox and
  Anthropic, for Perplexity when \<open>PERPLEXITY_API_KEY\<close> is set, and for Generative
  Language when the token count is absent or at most 800000.
\<close>

theorem no_model_supplied:
  assumes "no_model options"
  shows "getModel D p this options = Inl (new_error D ModelNotFoundError (provider_label p))
       \<and> constructor_name p = provider_label p @ str ''Provider''
       \<and> (deref h r = options \<and> reaches_getModel W p options
          \<longrightarrow> result (executePrompt D W p this h r prompt)
              = Inl (new_error D ModelNotFoundError (provider_label p)))"
  using assms getModel_no_model constructor_name_label executePrompt_no_model by blast

theorem no_model_supplied_witness:
  "no_model (Some (sample_options None None))
   \<and> result (executePrompt sample_deps sample_world OpenAI plain_provider
        [sample_options None None] (Some 0) (str ''question''))
     = Inl (JsError ModelNotFoundError (str ''OpenAI''))"
proof -
  have nm: "no_model (Some (sample_options None None))"
    by (simp add: no_model_def sample_options_def truthy_def)
  have "deref [sample_options None None] (Some 0) = Some (sample_options None None)"
    by (simp add: deref_def)
  moreover have "reaches_getModel sample_world OpenAI (Some (sample_options None None))"
    by (simp add: reaches_getModel_def)
  moreover have "new_error sample_deps ModelNotFoundError (provider_label OpenAI)
                 = JsError ModelNotFoundError (str ''OpenAI'')"
    by code_simp
  ultimately show ?thesis
    using no_model_supplied[OF nm, of sample_deps OpenAI plain_provider
        "[sample_options None None]" "Some 0" sample_world "str ''question''"] nm
    by simp
qed

text \<open>
  Without a model, the Generative Language provider given 900000 tokens takes
  \<open>gemini-2.0-pro-exp\<close> and answers; Perplexity without its API key throws an
  \<open>ApiKeyMissingError\<close>.
\<close>

theorem no_model_yet_no_ModelNotFoundError:
  "no_model (Some (sample_options None (Some 900000)))
   \<and> result (executePrompt sample_deps sample_world GoogleGenerativeLanguage
        (sample_provider [str ''gemini-2.0-pro-exp''])
        [sample_options None (Some 900000)] (Some 0) (str ''question'')) = Inr (str ''answer'')
   \<and> no_model (Some (sample_options None None))
   \<and> result (executePrompt sample_deps sample_world Perplexity plain_provider
        [sample_options None None] (Some 0) (str ''question''))
     = Inl (JsError ApiKeyMissingError (str ''Perplexity''))"
  by code_simp

section \<open>\<open>supportsWebSearch\<close>: the claim\<close>

lemma strip_one_slash:
  assumes "count_list name (unit_of (CHR ''/'')) \<le> 1"
  shows "(if js_includes name (str ''/'') then js_split (unit_of (CHR ''/'')) name ! 1 else name)
         = strip_provider_prefix name"
proof (cases "unit_of (CHR ''/'') \<in> set name")
  case False
  then show ?thesis by (simp add: strip_provider_prefix_def js_includes_char)
next
  case True
  then obtain pre post where n: "name = pre @ unit_of (CHR ''/'') # post" and pre: "unit_of (CHR ''/'') \<notin> set pre"
    by (meson split_list_first)
  with assms have post: "unit_of (CHR ''/'') \<notin> set post"
    by (auto simp: count_list_0_iff)
  have "dropWhile (\<lambda>c. c \<noteq> unit_of (CHR ''/'')) name = unit_of (CHR ''/'') # post"
    unfolding n using pre by (auto simp: dropWhile_append3)
  moreover have "js_split (unit_of (CHR ''/'')) name = [pre, post]"
    unfolding n using pre post by (simp add: js_split_first js_split_none)
  ultimately show ?thesis using True by (simp add: strip_provider_prefix_def js_includes_char)
qed

lemma web_supported_one_slash:
  "count_list name (unit_of (CHR ''/'')) \<le> 1 \<Longrightarrow>
   isWebSearchSupportedModelOnModelBox name = mentions_web (strip_provider_prefix name)"
  unfolding isWebSearchSupportedModelOnModelBox_def Let_def strip_one_slash
  by (simp add: mentions_web_def js_includes_sublist)

lemma without_prefix_no_slash: "unit_of (CHR ''/'') \<notin> set (without_prefix name)"
proof (cases "unit_of (CHR ''/'') \<in> set name")
  case False
  then show ?thesis by (simp add: without_prefix_def js_includes_char)
next
  case True
  then obtain pre post where n: "name = pre @ unit_of (CHR ''/'') # post" and pre: "unit_of (CHR ''/'') \<notin> set pre"
    by (meson split_list_first)
  have parts: "\<And>s. \<forall>part\<in>set (js_split (unit_of (CHR ''/'')) s). (unit_of (CHR ''/'')) \<notin> set part"
  proof -
    fix s show "\<forall>part\<in>set (js_split (unit_of (CHR ''/'')) s). (unit_of (CHR ''/'')) \<notin> set part"
      by (induction s) (auto split: list.splits)
  qed
  have "js_split (unit_of (CHR ''/'')) name = pre # js_split (unit_of (CHR ''/'')) post"
    unfolding n using pre by (simp add: js_split_first)
  moreover have "js_split (unit_of (CHR ''/'')) post \<noteq> []" by (rule js_split_nonempty)
  ultimately have "js_split (unit_of (CHR ''/'')) name ! 1 \<in> set (js_split (unit_of (CHR ''/'')) post)"
    by (cases "js_split (unit_of (CHR ''/'')) post") auto
  with parts[of post] True show ?thesis by (simp add: without_prefix_def js_includes_char)
qed


lemma strip_no_slash: "unit_of (CHR ''/'') \<notin> set name \<Longrightarrow> strip_provider_prefix name = name"
  by (simp add: strip_provider_prefix_def)

lemma without_prefix_one_slash:
  "count_list name (unit_of (CHR ''/'')) \<le> 1 \<Longrightarrow> without_prefix name = strip_provider_prefix name"
  unfolding without_prefix_def by (rule strip_one_slash)

text \<open>
  What holds of \<open>supportsWebSearch\<close> for every name: Perplexity reports a name
  supported exactly when it starts with \<open>sonar\<close>; OpenAI, OpenRouter and Anthropic
  report \<open>supported: false\<close> with an error text; and for a model with at most one \<open>/\<close>
  ModelBox and Vertex AI report a found one supported exactly when the name without
  its \<open>provider/\<close> prefix contains \<open>sonar\<close>, \<open>online\<close> or \<open>gemini\<close>.
\<close>

lemma supportsWebSearch_one_prefix:
  "(supported (supportsWebSearch D Perplexity this name) \<longleftrightarrow> prefix (str ''sonar'') name)
   \<and> (availableModels this = Some (Resolved avail) \<and> matchingModels avail name = found # others
       \<and> count_list found (unit_of (CHR ''/'')) \<le> 1
       \<longrightarrow> (supported (supportsWebSearch D ModelBox this name)
            \<longleftrightarrow> mentions_web (strip_provider_prefix found)))
   \<and> (availableModels this = Some (Resolved avail) \<and> count_list name (unit_of (CHR ''/'')) \<le> 1
       \<and> strip_provider_prefix name \<in> set avail
       \<longrightarrow> (supported (supportsWebSearch D GoogleVertexAI this name)
            \<longleftrightarrow> mentions_web (strip_provider_prefix name)))
   \<and> (p = OpenAI \<or> p = OpenRouter \<or> p = Anthropic
       \<longrightarrow> \<not> supported (supportsWebSearch D p this name)
         \<and> support_error (supportsWebSearch D p this name) \<noteq> None)"
proof (intro conjI impI)
  show "supported (supportsWebSearch D Perplexity this name) \<longleftrightarrow> prefix (str ''sonar'') name"
    by (simp add: supportsWebSearch_Perplexity_def startsWith_prefix)
next
  assume a: "availableModels this = Some (Resolved avail)
             \<and> matchingModels avail name = found # others
             \<and> count_list found (unit_of (CHR ''/'')) \<le> 1"
  then have "supported (supportsWebSearch D ModelBox this name)
             = isWebSearchSupportedModelOnModelBox found"
    by (simp add: supportsWebSearch_ModelBox_def Let_def)
  with a show "supported (supportsWebSearch D ModelBox this name)
               \<longleftrightarrow> mentions_web (strip_provider_prefix found)"
    by (simp add: web_supported_one_slash)
next
  assume a: "availableModels this = Some (Resolved avail) \<and> count_list name (unit_of (CHR ''/'')) \<le> 1
             \<and> strip_provider_prefix name \<in> set avail"
  then have wp: "without_prefix name = strip_provider_prefix name"
    by (simp add: without_prefix_one_slash)
  have no: "unit_of (CHR ''/'') \<notin> set (without_prefix name)" by (rule without_prefix_no_slash)
  then have "count_list (without_prefix name) (unit_of (CHR ''/'')) \<le> 1"
    by (simp add: count_list_0_iff)
  then have "isWebSearchSupportedModelOnModelBox (without_prefix name)
             = mentions_web (strip_provider_prefix (without_prefix name))"
    by (rule web_supported_one_slash)
  also have "strip_provider_prefix (without_prefix name) = without_prefix name"
    using no by (rule strip_no_slash)
  finally have "isWebSearchSupportedModelOnModelBox (without_prefix name)
                = mentions_web (strip_provider_prefix name)"
    unfolding wp .
  with a wp show "supported (supportsWebSearch D GoogleVertexAI this name)
               \<longleftrightarrow> mentions_web (strip_provider_prefix name)"
    by (simp add: supportsWebSearch_Vertex_def Let_def)
next
  assume "p = OpenAI \<or> p = OpenRouter \<or> p = Anthropic"
  then show "\<not> supported (supportsWebSearch D p this name)"
    by (auto simp: supportsWebSearch_OpenAI_def supportsWebSearch_OpenRouter_def
        supportsWebSearch_Anthropic_def)
next
  assume "p = OpenAI \<or> p = OpenRouter \<or> p = Anthropic"
  then show "support_error (supportsWebSearch D p this name) \<noteq> None"
    by (auto simp: supportsWebSearch_OpenAI_def supportsWebSearch_OpenRouter_def
        supportsWebSearch_Anthropic_def)
qed

text \<open>
  C10. The claim has ModelBox report a found model supported exactly when its name
  without the \<open>provider/\<close> prefix contains \<open>sonar\<close>, \<open>online\<close> or \<open>gemini\<close>, and the
  comment of \<open>isWebSearchSupportedModelOnModelBox\<close> says the same (\<open>Extract model name
  without provider prefix if present\<close>). The code takes \<open>split('/')[1]\<close>, the second
  component alone. The model \<open>vertex/google/gemini-pro\<close> is found; without its prefix
  it is \<open>google/gemini-pro\<close>, which contains \<open>gemini\<close>; the code tests \<open>google\<close>, reports
  the model unsupported, and then suggests that very model, since the filter that
  picks the suggestion tests the whole name.
\<close>

theorem supportsWebSearch_second_component:
  "matchingModels [str ''vertex/google/gemini-pro''] (str ''vertex/google/gemini-pro'')
     = [str ''vertex/google/gemini-pro'']
   \<and> strip_provider_prefix (str ''vertex/google/gemini-pro'') = str ''google/gemini-pro''
   \<and> mentions_web (strip_provider_prefix (str ''vertex/google/gemini-pro''))
   \<and> supportsWebSearch sample_deps ModelBox
       (sample_provider [str ''vertex/google/gemini-pro'']) (str ''vertex/google/gemini-pro'')
     = \<lparr>supported = False, suggested = Some (str ''vertex/google/gemini-pro''),
        support_error = Some (str ''Model vertex/google/gemini-pro does not support web search. ''
          @ str ''Try one of these models:'' @ nl @ str ''- vertex/google/gemini-pro'')\<rparr>"
proof -
  have "mentions_web (strip_provider_prefix (str ''vertex/google/gemini-pro''))"
    unfolding mentions_web_def js_includes_sublist[symmetric] by code_simp
  moreover have "matchingModels [str ''vertex/google/gemini-pro''] (str ''vertex/google/gemini-pro'')
     = [str ''vertex/google/gemini-pro'']"
    by code_simp
  moreover have "strip_provider_prefix (str ''vertex/google/gemini-pro'') = str ''google/gemini-pro''"
    by code_simp
  moreover have "supportsWebSearch sample_deps ModelBox
       (sample_provider [str ''vertex/google/gemini-pro'']) (str ''vertex/google/gemini-pro'')
     = \<lparr>supported = False, suggested = Some (str ''vertex/google/gemini-pro''),
        support_error = Some (str ''Model vertex/google/gemini-pro does not support web search. ''
          @ str ''Try one of these models:'' @ nl @ str ''- vertex/google/gemini-pro'')\<rparr>"
    by code_simp
  ultimately show ?thesis by simp
qed

end
